theory Spec2Isabelle
  imports Complex_Main
begin

section \<open>Python strings\<close>

text \<open>
  A Python \<open>str\<close> is modelled as a \<open>string\<close>: every character is one code point
  in the range 0..255 (Latin-1). The string methods below are the Python ones,
  restricted to that range.
\<close>

definition lower_char :: "char \<Rightarrow> char" where
  \<comment> \<open>\<open>str.lower\<close> on one code point: A-Z and the upper-case letters of Latin-1
      (0xC0..0xDE without the multiplication sign 0xD7) move up by 32.\<close>
  "lower_char c =
     (let n = (of_char c :: nat)
      in if (65 \<le> n \<and> n \<le> 90) \<or> (192 \<le> n \<and> n \<le> 222 \<and> n \<noteq> 215)
         then char_of (n + 32) else c)"

definition lower :: "string \<Rightarrow> string" where
  "lower s = map lower_char s"

definition starts_with :: "string \<Rightarrow> string \<Rightarrow> bool" where
  \<comment> \<open>\<open>s.startswith(t)\<close>\<close>
  "starts_with s t = (take (length t) s = t)"

definition ends_with :: "string \<Rightarrow> string \<Rightarrow> bool" where
  \<comment> \<open>\<open>s.endswith(t)\<close>\<close>
  "ends_with s t = (length t \<le> length s \<and> drop (length s - length t) s = t)"

fun str_in :: "string \<Rightarrow> string \<Rightarrow> bool" where
  \<comment> \<open>\<open>t in s\<close>: \<open>t\<close> occurs in \<open>s\<close> as a contiguous substring.\<close>
  "str_in t [] = (t = [])"
| "str_in t (c # cs) = (starts_with (c # cs) t \<or> str_in t cs)"

definition is_decimal :: "char \<Rightarrow> bool" where
  \<comment> \<open>Unicode category Nd, which in Latin-1 is 0-9: what \<open>\d\<close> matches and what
      \<open>int()\<close> accepts.\<close>
  "is_decimal c = (48 \<le> (of_char c :: nat) \<and> (of_char c :: nat) \<le> 57)"

definition isdigit_char :: "char \<Rightarrow> bool" where
  \<comment> \<open>\<open>str.isdigit\<close> on one code point: the decimal digits and, in Latin-1, the
      superscripts two, three (0xB2, 0xB3) and one (0xB9).\<close>
  "isdigit_char c =
     (let n = (of_char c :: nat)
      in (48 \<le> n \<and> n \<le> 57) \<or> n = 178 \<or> n = 179 \<or> n = 185)"

definition isdigit :: "string \<Rightarrow> bool" where
  \<comment> \<open>\<open>s.isdigit()\<close>: non-empty and every character a digit.\<close>
  "isdigit s = (s \<noteq> [] \<and> list_all isdigit_char s)"

definition is_space :: "char \<Rightarrow> bool" where
  \<comment> \<open>\<open>str.isspace\<close> on one code point, the set \<open>strip()\<close> and \<open>split()\<close> use.\<close>
  "is_space c =
     (let n = (of_char c :: nat)
      in (9 \<le> n \<and> n \<le> 13) \<or> (28 \<le> n \<and> n \<le> 32) \<or> n = 133 \<or> n = 160)"

definition strip :: "string \<Rightarrow> string" where
  \<comment> \<open>\<open>s.strip()\<close>\<close>
  "strip s = rev (dropWhile is_space (rev (dropWhile is_space s)))"

fun split_acc :: "string \<Rightarrow> string \<Rightarrow> string list" where
  \<comment> \<open>the scan of \<open>s.split()\<close>; the first argument is the token being read, reversed\<close>
  "split_acc cur [] = (if cur = [] then [] else [rev cur])"
| "split_acc cur (c # cs) =
     (if is_space c
      then (if cur = [] then split_acc [] cs else rev cur # split_acc [] cs)
      else split_acc (c # cur) cs)"

definition split :: "string \<Rightarrow> string list" where
  \<comment> \<open>\<open>s.split()\<close>: the maximal runs of non-whitespace characters\<close>
  "split s = split_acc [] s"

fun join :: "string \<Rightarrow> string list \<Rightarrow> string" where
  \<comment> \<open>\<open>sep.join(parts)\<close>\<close>
  "join sep [] = []"
| "join sep [p] = p"
| "join sep (p # q # ps) = p @ sep @ join sep (q # ps)"

definition replace_char :: "char \<Rightarrow> string \<Rightarrow> string" where
  \<comment> \<open>\<open>s.replace(c, '')\<close> for a one-character \<open>c\<close>\<close>
  "replace_char c s = filter (\<lambda>d. d \<noteq> c) s"

section \<open>Field-type inference\<close>

definition numeric_terms :: "string list" where
  "numeric_terms = [''id'', ''number'', ''num'', ''code'']"

definition phone_terms :: "string list" where
  "phone_terms = [''phone'', ''tel'', ''mobile'', ''landline'']"

definition date_terms :: "string list" where
  "date_terms = [''date'', ''day'', ''month'', ''year'']"

definition text_terms :: "string list" where
  "text_terms = [''name'', ''first'', ''last'', ''family'']"

definition address_terms :: "string list" where
  "address_terms = [''address'', ''street'', ''city'']"

definition any_term_in :: "string list \<Rightarrow> string \<Rightarrow> bool" where
  \<comment> \<open>\<open>any(term in name for term in terms)\<close>\<close>
  "any_term_in terms name = list_ex (\<lambda>term. str_in term name) terms"

definition infer_field_type :: "string \<Rightarrow> string" where
  "infer_field_type field_name =
     (let lower_name = lower field_name
      in if any_term_in numeric_terms lower_name then ''numeric''
         else if any_term_in phone_terms lower_name then ''phone''
         else if any_term_in date_terms lower_name then ''date''
         else if any_term_in text_terms lower_name then ''text''
         else if any_term_in address_terms lower_name then ''address''
         else ''unknown'')"

section \<open>Format validation\<close>

text \<open>
  The four registered patterns all have the shape \<open>^\d{m,n}$\<close> (\<open>^\d{9}$\<close> is
  \<open>m = n = 9\<close>), so a pattern is the pair of repetition bounds.
\<close>

datatype pattern = DigitRun nat nat

definition field_patterns :: "string \<Rightarrow> pattern option" where
  "field_patterns field =
     (if field = ''idNumber'' then Some (DigitRun 9 9)
      else if field = ''mobilePhone'' then Some (DigitRun 10 10)
      else if field = ''landlinePhone'' then Some (DigitRun 9 9)
      else if field = ''postalCode'' then Some (DigitRun 5 7)
      else None)"

definition newline :: char where
  "newline = char_of (10 :: nat)"

fun re_match :: "pattern \<Rightarrow> string \<Rightarrow> bool" where
  \<comment> \<open>\<open>bool(re.match(pattern, value))\<close> for \<open>^\d{m,n}$\<close>: some \<open>k\<close> of \<open>m..n\<close> leading
      decimal digits, followed by the end of the string; without the MULTILINE flag
      \<open>$\<close> matches at the end of the string and also just before a newline that is
      the last character.\<close>
  "re_match (DigitRun m n) v =
     list_ex (\<lambda>k. k \<le> length v \<and> list_all is_decimal (take k v)
                  \<and> (drop k v = [] \<or> drop k v = [newline]))
             [m ..< Suc n]"

definition validate_format :: "string \<Rightarrow> string \<Rightarrow> bool" where
  "validate_format field v =
     (if v = [] then True
      else case field_patterns field of
             None \<Rightarrow> True
           | Some pattern \<Rightarrow> re_match pattern v)"

fun full_match :: "pattern \<Rightarrow> string \<Rightarrow> bool" where
  \<comment> \<open>The specification's reading of the patterns: the whole value is a run of
      between \<open>m\<close> and \<open>n\<close> decimal digits.\<close>
  "full_match (DigitRun m n) v = (m \<le> length v \<and> length v \<le> n \<and> list_all is_decimal v)"

section \<open>Exceptions\<close>

text \<open>
  The exceptions the modelled code can raise. A computation that may raise has a
  result of type \<open>exn + 'a\<close>, with \<open>Inl\<close> the exception.
\<close>

datatype exn = ValueError | TypeError | AttributeError | IndexError | KeyError
  | OverflowError | ZeroDivisionError | RecursionError

definition exn_bind :: "exn + 'a \<Rightarrow> ('a \<Rightarrow> exn + 'b) \<Rightarrow> exn + 'b" where
  \<comment> \<open>sequencing: an exception of the first computation propagates\<close>
  "exn_bind m f = (case m of Inl e \<Rightarrow> Inl e | Inr v \<Rightarrow> f v)"

text \<open>
  Two limits of the interpreter decide whether a call returns. The first is the number of
  digits that a conversion between \<open>int\<close> and \<open>str\<close> accepts
  (\<open>sys.get_int_max_str_digits()\<close>, 4300 unless reconfigured): a longer conversion raises
  ValueError. The second is the recursion limit: how deep a computation can nest depends
  on the stack at the moment of the call, so the depths that are left are parameters of
  the model.
\<close>

definition int_max_str_digits :: nat where
  "int_max_str_digits = 4300"

record limits =
  json_depth :: nat  \<comment> \<open>how many dictionaries, one inside the other, \<open>json.dumps\<close> can enter\<close>
  call_depth :: nat  \<comment> \<open>how many calls of \<open>_flatten_dict\<close> can nest below the first one\<close>
  repr_depth :: nat  \<comment> \<open>how many dictionaries, one inside the other, \<open>str\<close> can enter\<close>

definition default_limits :: limits where
  \<comment> \<open>an upper bound of what the default recursion limit of 1000 leaves\<close>
  "default_limits = \<lparr>json_depth = 1000, call_depth = 1000, repr_depth = 1000\<rparr>"

section \<open>Date validation\<close>

definition digit_val :: "char \<Rightarrow> int" where
  "digit_val c = int (of_char c) - 48"

fun int_digits :: "int \<Rightarrow> string \<Rightarrow> int option" where
  \<comment> \<open>the digits of an integer literal after its first digit: further digits, each
      optionally preceded by one underscore\<close>
  "int_digits acc [] = Some acc"
| "int_digits acc [c] = (if is_decimal c then Some (10 * acc + digit_val c) else None)"
| "int_digits acc (c # d # ds) =
     (if is_decimal c then int_digits (10 * acc + digit_val c) (d # ds)
      else if c = CHR ''_'' \<and> is_decimal d then int_digits (10 * acc + digit_val d) ds
      else None)"

definition is_int_space :: "char \<Rightarrow> bool" where
  \<comment> \<open>the whitespace that \<open>int\<close> skips around the literal: tab to carriage return,
      space, U+0085 and U+00A0. Unlike \<open>str.strip\<close> it does not skip the separators
      U+001C..U+001F.\<close>
  "is_int_space c = (let n = (of_char c :: nat) in (9 \<le> n \<and> n \<le> 13) \<or> n = 32 \<or> n = 133 \<or> n = 160)"

definition int_strip :: "string \<Rightarrow> string" where
  "int_strip s = rev (dropWhile is_int_space (rev (dropWhile is_int_space s)))"

definition py_int :: "string \<Rightarrow> exn + int" where
  \<comment> \<open>\<open>int(s)\<close> for a string: surrounding whitespace is dropped, then an optional sign
      and a decimal literal; anything else raises ValueError, and so does a literal of
      more than 4300 digits (leading zeros count, underscores do not)\<close>
  "py_int s =
     (let t = int_strip s;
          neg = (t \<noteq> [] \<and> hd t = CHR ''-'');
          body = (if t \<noteq> [] \<and> (hd t = CHR ''-'' \<or> hd t = CHR ''+'') then tl t else t)
      in case body of
           [] \<Rightarrow> Inl ValueError
         | c # cs \<Rightarrow>
             if is_decimal c
             then (case int_digits (digit_val c) cs of
                     None \<Rightarrow> Inl ValueError
                   | Some n \<Rightarrow>
                       if int_max_str_digits < length (filter is_decimal body)
                       then Inl ValueError
                       else Inr (if neg then - n else n))
             else Inl ValueError)"

type_synonym date = "int \<times> int \<times> int"
  \<comment> \<open>year, month, day of a \<open>datetime\<close> built from three arguments (midnight)\<close>

definition is_leap :: "int \<Rightarrow> bool" where
  "is_leap y = (y mod 4 = 0 \<and> (y mod 100 \<noteq> 0 \<or> y mod 400 = 0))"

definition days_in_month :: "int \<Rightarrow> int \<Rightarrow> int" where
  "days_in_month y m =
     (if m = 2 then (if is_leap y then 29 else 28)
      else if m = 4 \<or> m = 6 \<or> m = 9 \<or> m = 11 then 30 else 31)"

definition fits_c_int :: "int \<Rightarrow> bool" where
  "fits_c_int n = (- (2 ^ 31) \<le> n \<and> n < 2 ^ 31)"

definition datetime :: "int \<Rightarrow> int \<Rightarrow> int \<Rightarrow> exn + date" where
  \<comment> \<open>\<open>datetime(year, month, day)\<close>: OverflowError for an argument that is no C int,
      ValueError for a year outside 1..9999, a month outside 1..12 or a day outside
      the month.\<close>
  "datetime y m d =
     (if \<not> (fits_c_int y \<and> fits_c_int m \<and> fits_c_int d) then Inl OverflowError
      else if y < 1 \<or> 9999 < y then Inl ValueError
      else if m < 1 \<or> 12 < m then Inl ValueError
      else if d < 1 \<or> days_in_month y m < d then Inl ValueError
      else Inr (y, m, d))"

definition truthy_str :: "string option \<Rightarrow> bool" where
  \<comment> \<open>truth value of \<open>d.get(k)\<close> for a dict of strings: present and non-empty\<close>
  "truthy_str v = (case v of None \<Rightarrow> False | Some s \<Rightarrow> s \<noteq> [])"

definition getitem :: "('k \<rightharpoonup> 'v) \<Rightarrow> 'k \<Rightarrow> exn + 'v" where
  \<comment> \<open>\<open>d[k]\<close>\<close>
  "getitem d k = (case d k of None \<Rightarrow> Inl KeyError | Some v \<Rightarrow> Inr v)"

text \<open>
  The message returned by \<open>validate_date\<close>: the empty string, or one of the two
  formatted messages. The text of the exception inside the message is the interpreter's
  and is not modelled.
\<close>

datatype reason =
    NoReason \<comment> \<open>the empty string\<close>
  | InvalidDateFormat exn \<comment> \<open>\<open>f"Invalid date format: {str(e)}"\<close>\<close>
  | UnexpectedError exn \<comment> \<open>\<open>f"Unexpected error: {str(e)}"\<close>\<close>

definition validate_date_try :: "(string \<rightharpoonup> string) \<Rightarrow> exn + (bool \<times> reason)" where
  \<comment> \<open>the body of the outer \<open>try\<close>; the inner handler catches ValueError only\<close>
  "validate_date_try date_dict =
     (if \<not> (truthy_str (date_dict ''day'') \<and> truthy_str (date_dict ''month'')
             \<and> truthy_str (date_dict ''year''))
      then Inr (True, NoReason)
      else case exn_bind (exn_bind (getitem date_dict ''year'') py_int) (\<lambda>y.
                exn_bind (exn_bind (getitem date_dict ''month'') py_int) (\<lambda>m.
                exn_bind (exn_bind (getitem date_dict ''day'') py_int) (\<lambda>d.
                datetime y m d))) of
             Inr date_obj \<Rightarrow> Inr (True, NoReason)
           | Inl e \<Rightarrow> (if e = ValueError then Inr (False, InvalidDateFormat e) else Inl e))"

definition validate_date :: "(string \<rightharpoonup> string) \<Rightarrow> exn + (bool \<times> reason)" where
  \<comment> \<open>the outer handler \<open>except Exception\<close> turns every exception into a result\<close>
  "validate_date date_dict =
     (case validate_date_try date_dict of
        Inl e \<Rightarrow> Inr (False, UnexpectedError e)
      | Inr r \<Rightarrow> Inr r)"

definition calendar_date :: "int \<Rightarrow> int \<Rightarrow> int \<Rightarrow> bool" where
  \<comment> \<open>a date of the proleptic Gregorian calendar in the years 1..9999\<close>
  "calendar_date y m d =
     (1 \<le> y \<and> y \<le> 9999 \<and> 1 \<le> m \<and> m \<le> 12 \<and> 1 \<le> d \<and> d \<le> days_in_month y m)"

section \<open>Bounding box of a polygon\<close>

text \<open>
  The elements a polygon list can hold: an object with numeric attributes \<open>x\<close> and
  \<open>y\<close>, a number, a list or tuple of numbers, or any other value (a value that has no
  attributes \<open>x\<close> and \<open>y\<close>, is no number, list or tuple, and supports neither indexing
  nor arithmetic with numbers). Numbers are modelled as reals.
\<close>

datatype pelem = Point real real | Num real | Seq "real list" | Other

record bounding_box =
  bb_x :: real
  bb_y :: real
  bb_width :: real
  bb_height :: real

definition default_box :: bounding_box where
  "default_box = \<lparr>bb_x = 0, bb_y = 0, bb_width = 100, bb_height = 20\<rparr>"

fun map_exn :: "('a \<Rightarrow> exn + 'b) \<Rightarrow> 'a list \<Rightarrow> exn + 'b list" where
  \<comment> \<open>a list comprehension whose element expression may raise\<close>
  "map_exn f [] = Inr []"
| "map_exn f (x # xs) =
     exn_bind (f x) (\<lambda>y. exn_bind (map_exn f xs) (\<lambda>ys. Inr (y # ys)))"

fun has_xy :: "pelem \<Rightarrow> bool" where
  \<comment> \<open>\<open>hasattr(p, 'x') and hasattr(p, 'y')\<close>\<close>
  "has_xy (Point x y) = True"
| "has_xy p = False"

fun attr_x :: "pelem \<Rightarrow> exn + real" where
  \<comment> \<open>\<open>p.x\<close>\<close>
  "attr_x (Point x y) = Inr x"
| "attr_x p = Inl AttributeError"

fun attr_y :: "pelem \<Rightarrow> exn + real" where
  \<comment> \<open>\<open>p.y\<close>\<close>
  "attr_y (Point x y) = Inr y"
| "attr_y p = Inl AttributeError"

fun is_number :: "pelem \<Rightarrow> bool" where
  \<comment> \<open>\<open>isinstance(p, (int, float))\<close>\<close>
  "is_number (Num r) = True"
| "is_number p = False"

fun number_of :: "pelem \<Rightarrow> exn + real" where
  \<comment> \<open>the use of an element of a flat list as a coordinate: \<open>min\<close>, \<open>max\<close> and the
      subtractions raise TypeError on an element that is not a number\<close>
  "number_of (Num r) = Inr r"
| "number_of p = Inl TypeError"

fun is_pair :: "pelem \<Rightarrow> bool" where
  \<comment> \<open>\<open>isinstance(p, (list, tuple)) and len(p) == 2\<close>\<close>
  "is_pair (Seq l) = (length l = 2)"
| "is_pair p = False"

fun item :: "nat \<Rightarrow> pelem \<Rightarrow> exn + real" where
  \<comment> \<open>\<open>p[i]\<close>\<close>
  "item i (Seq l) = (if i < length l then Inr (l ! i) else Inl IndexError)"
| "item i p = Inl TypeError"

fun evens :: "'a list \<Rightarrow> 'a list" where
  \<comment> \<open>\<open>[xs[i] for i in range(0, len(xs), 2)]\<close>\<close>
  "evens [] = []"
| "evens [x] = [x]"
| "evens (x # y # zs) = x # evens zs"

fun odds :: "'a list \<Rightarrow> 'a list" where
  \<comment> \<open>\<open>[xs[i] for i in range(1, len(xs), 2)]\<close>\<close>
  "odds [] = []"
| "odds [x] = []"
| "odds (x # y # zs) = y # odds zs"

fun py_min :: "real list \<Rightarrow> exn + real" where
  \<comment> \<open>\<open>min(xs)\<close>\<close>
  "py_min [] = Inl ValueError"
| "py_min (x # xs) = Inr (fold min xs x)"

fun py_max :: "real list \<Rightarrow> exn + real" where
  \<comment> \<open>\<open>max(xs)\<close>\<close>
  "py_max [] = Inl ValueError"
| "py_max (x # xs) = Inr (fold max xs x)"

definition box_of_coordinates :: "real list \<Rightarrow> real list \<Rightarrow> exn + bounding_box" where
  \<comment> \<open>the last part of the function, after the shape has been recognised\<close>
  "box_of_coordinates x_coordinates y_coordinates =
     exn_bind (py_min x_coordinates) (\<lambda>min_x.
     exn_bind (py_min y_coordinates) (\<lambda>min_y.
     exn_bind (py_max x_coordinates) (\<lambda>max_x.
     exn_bind (py_max y_coordinates) (\<lambda>max_y.
     Inr \<lparr>bb_x = min_x, bb_y = min_y, bb_width = max_x - min_x, bb_height = max_y - min_y\<rparr>))))"

definition extract_bounding_box_try :: "pelem list option \<Rightarrow> exn + bounding_box" where
  \<comment> \<open>the body of the \<open>try\<close>; \<open>None\<close> is Python's \<open>None\<close>\<close>
  "extract_bounding_box_try polygon =
     (case polygon of
        None \<Rightarrow> Inr default_box
      | Some [] \<Rightarrow> Inr default_box
      | Some (p0 # ps) \<Rightarrow>
          if has_xy p0 then
            exn_bind (map_exn attr_x (p0 # ps)) (\<lambda>x_coordinates.
            exn_bind (map_exn attr_y (p0 # ps)) (\<lambda>y_coordinates.
            box_of_coordinates x_coordinates y_coordinates))
          else if is_number p0 then
            (if length (p0 # ps) mod 2 = 0 then
               exn_bind (map_exn number_of (evens (p0 # ps))) (\<lambda>x_coordinates.
               exn_bind (map_exn number_of (odds (p0 # ps))) (\<lambda>y_coordinates.
               box_of_coordinates x_coordinates y_coordinates))
             else Inr default_box)
          else if is_pair p0 then
            exn_bind (map_exn (item 0) (p0 # ps)) (\<lambda>x_coordinates.
            exn_bind (map_exn (item 1) (p0 # ps)) (\<lambda>y_coordinates.
            box_of_coordinates x_coordinates y_coordinates))
          else Inr default_box)"

definition extract_bounding_box :: "pelem list option \<Rightarrow> exn + bounding_box" where
  \<comment> \<open>\<open>except Exception\<close>: every exception of the body gives the default box\<close>
  "extract_bounding_box polygon =
     (case extract_bounding_box_try polygon of
        Inl e \<Rightarrow> Inr default_box
      | Inr box \<Rightarrow> Inr box)"

definition spanning_box :: "real list \<Rightarrow> real list \<Rightarrow> bounding_box" where
  \<comment> \<open>the axis-aligned box spanning the minimum and maximum of the coordinates\<close>
  "spanning_box xs ys =
     \<lparr>bb_x = Min (set xs), bb_y = Min (set ys),
      bb_width = Max (set xs) - Min (set xs), bb_height = Max (set ys) - Min (set ys)\<rparr>"

fun flat_list :: "(real \<times> real) list \<Rightarrow> pelem list" where
  \<comment> \<open>the flat encoding \<open>[x1, y1, x2, y2, ...]\<close> of a list of points\<close>
  "flat_list [] = []"
| "flat_list ((x, y) # cs) = Num x # Num y # flat_list cs"

section \<open>Values, spans and OCR results\<close>

text \<open>
  The values of a JSON-like document as the validator sees them: \<open>None\<close>, booleans,
  integers, strings and dictionaries with string keys (a dictionary is the list of its
  items in insertion order). Floats and lists as field values are left out.
\<close>

datatype pyval = PNone | PBool bool | PInt int | PStr string | PDict "(string \<times> pyval) list"

text \<open>
  A bounding box is a dictionary with the keys \<open>x\<close>, \<open>y\<close>, \<open>width\<close> and \<open>height\<close>,
  each of which may be absent; \<open>{}\<close> has none of them. Other keys are not modelled.
\<close>

record box_dict =
  box_x :: "real option"
  box_y :: "real option"
  box_width :: "real option"
  box_height :: "real option"

definition empty_box :: box_dict where
  "empty_box = \<lparr>box_x = None, box_y = None, box_width = None, box_height = None\<rparr>"

text \<open>
  A text span of the OCR result. Each key may be absent (\<open>None\<close>); the text may be any
  value, the confidence is a number.
\<close>

record span =
  span_text :: "pyval option"
  span_confidence :: "real option"
  span_bounding_box :: "box_dict option"

record cell =
  cell_text :: string
  row_index :: int
  column_index :: int

type_synonym table = "cell list"

record ocr_result =
  text_spans :: "span list"  \<comment> \<open>key \<open>text\<close>; an absent key is the empty list\<close>
  tables :: "table list"  \<comment> \<open>key \<open>tables\<close>; an absent key is the empty list\<close>
  average_confidence :: "real option"

datatype element = SpanElem span | TableElem table

section \<open>Spatial coherence\<close>

definition np_mean :: "real list \<Rightarrow> real" where
  \<comment> \<open>\<open>np.mean\<close> of a non-empty list, in exact arithmetic\<close>
  "np_mean xs = sum_list xs / real (length xs)"

definition calculate_overlap :: "box_dict \<Rightarrow> box_dict \<Rightarrow> real" where
  "calculate_overlap bbox1 bbox2 =
     (case (box_x bbox1, box_y bbox1, box_width bbox1, box_height bbox1,
            box_x bbox2, box_y bbox2, box_width bbox2, box_height bbox2) of
        (Some x1, Some y1, Some w1, Some h1, Some x2, Some y2, Some w2, Some h2) \<Rightarrow>
          (let x_left = max x1 x2;
               y_top = max y1 y2;
               x_right = min (x1 + w1) (x2 + w2);
               y_bottom = min (y1 + h1) (y2 + h2)
           in if x_right < x_left \<or> y_bottom < y_top then 0
              else let intersection_area = (x_right - x_left) * (y_bottom - y_top);
                       bbox1_area = w1 * h1;
                       bbox2_area = w2 * h2;
                       union_area = bbox1_area + bbox2_area - intersection_area
                   in if union_area > 0 then intersection_area / union_area else 0)
      | _ \<Rightarrow> 0)"

fun element_bounding_box :: "element \<Rightarrow> exn + box_dict option" where
  \<comment> \<open>\<open>element.get("bounding_box")\<close>: a table is a list and has no \<open>get\<close>\<close>
  "element_bounding_box (SpanElem s) = Inr (span_bounding_box s)"
| "element_bounding_box (TableElem t) = Inl AttributeError"

definition box_or_empty :: "box_dict option \<Rightarrow> box_dict" where
  \<comment> \<open>\<open>d.get("bounding_box", {})\<close>\<close>
  "box_or_empty b = (case b of None \<Rightarrow> empty_box | Some box \<Rightarrow> box)"

fun overlaps_with :: "box_dict \<Rightarrow> element list \<Rightarrow> exn + real list" where
  \<comment> \<open>the loop of \<open>_validate_spatial_coherence\<close> that collects \<open>overlaps\<close>\<close>
  "overlaps_with bbox [] = Inr []"
| "overlaps_with bbox (e # es) =
     exn_bind (element_bounding_box e) (\<lambda>b.
       if b = Some bbox then overlaps_with bbox es
       else exn_bind (overlaps_with bbox es) (\<lambda>overlaps.
              Inr (calculate_overlap bbox (box_or_empty b) # overlaps)))"

definition spatial_overlap_threshold :: real where
  "spatial_overlap_threshold = 3 / 10"

definition validate_spatial_coherence :: "box_dict \<Rightarrow> element list \<Rightarrow> exn + real" where
  "validate_spatial_coherence bbox all_elements =
     (if all_elements = [] then Inr 1
      else exn_bind (overlaps_with bbox all_elements) (\<lambda>overlaps.
             let avg_overlap = (if overlaps \<noteq> [] then np_mean overlaps else 0)
             in Inr (1 - min (avg_overlap / spatial_overlap_threshold) 1)))"

section \<open>Validation of the OCR spans\<close>

definition min_confidence_threshold :: real where
  "min_confidence_threshold = 1 / 2"

definition confidence_of :: "span \<Rightarrow> real" where
  \<comment> \<open>\<open>span.get("confidence", 0)\<close>\<close>
  "confidence_of s = (case span_confidence s of None \<Rightarrow> 0 | Some c \<Rightarrow> c)"

definition text_of :: "span \<Rightarrow> pyval" where
  \<comment> \<open>\<open>span.get("text", "")\<close>\<close>
  "text_of s = (case span_text s of None \<Rightarrow> PStr [] | Some t \<Rightarrow> t)"

fun slice30 :: "pyval \<Rightarrow> exn + string" where
  \<comment> \<open>\<open>v[:30]\<close>, evaluated as an argument of the log call: only a string can be sliced\<close>
  "slice30 (PStr s) = Inr (take 30 s)"
| "slice30 v = Inl TypeError"

record validated_span =
  vs_text :: pyval
  confidence_valid :: bool
  spatial_score :: real

record extraction_validation =
  validated_spans :: "validated_span list"
  global_confidence :: real
  metric_average_confidence :: real
  metric_spatial_confidence :: real

definition score_span :: "ocr_result \<Rightarrow> span \<Rightarrow> exn + (real \<times> real)" where
  \<comment> \<open>one round of the loop over \<open>text_spans[:20]\<close>: the two values appended to
      \<open>validation_scores\<close> and \<open>spatial_validations\<close>\<close>
  "score_span extraction_result s =
     exn_bind (slice30 (text_of s)) (\<lambda>shown.
     exn_bind (validate_spatial_coherence (box_or_empty (span_bounding_box s))
                 (map SpanElem (text_spans extraction_result)
                  @ map TableElem (tables extraction_result))) (\<lambda>spatial_score.
     Inr (confidence_of s, spatial_score)))"

definition validate_span :: "ocr_result \<Rightarrow> span \<Rightarrow> exn + validated_span" where
  \<comment> \<open>one entry of the list \<open>validated_spans\<close> of the result\<close>
  "validate_span extraction_result s =
     exn_bind (validate_spatial_coherence (box_or_empty (span_bounding_box s))
                 (map SpanElem (text_spans extraction_result))) (\<lambda>sc.
     Inr \<lparr>vs_text = text_of s,
          confidence_valid = (confidence_of s \<ge> min_confidence_threshold),
          spatial_score = sc\<rparr>)"

definition validate_extraction :: "ocr_result \<Rightarrow> exn + extraction_validation" where
  "validate_extraction extraction_result =
     exn_bind (map_exn (score_span extraction_result)
                 (take 20 (text_spans extraction_result))) (\<lambda>scores.
       let validation_scores = map fst scores;
           spatial_validations = map snd scores;
           avg_confidence = (if validation_scores \<noteq> [] then np_mean validation_scores else 0);
           spatial_confidence =
             (if spatial_validations \<noteq> [] then np_mean spatial_validations else 0)
       in exn_bind (map_exn (validate_span extraction_result)
                      (text_spans extraction_result)) (\<lambda>spans.
            Inr \<lparr>validated_spans = spans,
                 global_confidence = (avg_confidence + spatial_confidence) / 2,
                 metric_average_confidence = avg_confidence,
                 metric_spatial_confidence = spatial_confidence\<rparr>))"

definition mean_or_zero :: "real list \<Rightarrow> real" where
  \<comment> \<open>the mean of a list of scores, 0 for the empty list\<close>
  "mean_or_zero xs = (if xs = [] then 0 else sum_list xs / real (length xs))"

definition plain_span :: "string \<Rightarrow> real \<Rightarrow> span" where
  \<comment> \<open>a span with a text and a confidence and without bounding box\<close>
  "plain_span t c = \<lparr>span_text = Some (PStr t), span_confidence = Some c,
                      span_bounding_box = None\<rparr>"

definition spans21 :: "span list" where
  \<comment> \<open>twenty spans of confidence 1 followed by one span of confidence 0\<close>
  "spans21 = replicate 20 (plain_span ''a'' 1) @ [plain_span ''b'' 0]"

section \<open>String form and truth value of a value\<close>

definition digit_char :: "nat \<Rightarrow> char" where
  "digit_char d = char_of (48 + d)"

fun str_of_nat :: "nat \<Rightarrow> string" where
  "str_of_nat n =
     (if n < 10 then [digit_char n] else str_of_nat (n div 10) @ [digit_char (n mod 10)])"

declare str_of_nat.simps [simp del]

definition str_of_int :: "int \<Rightarrow> string" where
  "str_of_int i = (if i < 0 then CHR ''-'' # str_of_nat (nat (- i)) else str_of_nat (nat i))"

definition quote :: char where
  "quote = char_of (39 :: nat)"

definition int_str :: "int \<Rightarrow> exn + string" where
  \<comment> \<open>\<open>str(i)\<close> for an int: ValueError when the decimal form has more than 4300 digits\<close>
  "int_str i =
     (if int_max_str_digits < length (str_of_nat (nat \<bar>i\<bar>)) then Inl ValueError
      else Inr (str_of_int i))"

function py_repr :: "nat \<Rightarrow> pyval \<Rightarrow> exn + string"
  and py_repr_items :: "nat \<Rightarrow> (string \<times> pyval) list \<Rightarrow> exn + string list" where
  \<comment> \<open>\<open>repr(v)\<close>, with the number of nested dictionaries that can still be entered; the
      quoting of a string is the plain one, exact for strings without quotes, backslashes
      and unprintable characters\<close>
  "py_repr depth PNone = Inr ''None''"
| "py_repr depth (PBool b) = Inr (if b then ''True'' else ''False'')"
| "py_repr depth (PInt i) = int_str i"
| "py_repr depth (PStr s) = Inr (quote # s @ [quote])"
| "py_repr depth (PDict items) =
     (case depth of
        0 \<Rightarrow> Inl RecursionError
      | Suc depth' \<Rightarrow>
          (case py_repr_items depth' items of
             Inl e \<Rightarrow> Inl e
           | Inr parts \<Rightarrow> Inr (''{'' @ join '', '' parts @ ''}'')))"
| "py_repr_items depth [] = Inr []"
| "py_repr_items depth ((k, v) # rest) =
     (case py_repr depth v of
        Inl e \<Rightarrow> Inl e
      | Inr r \<Rightarrow>
          (case py_repr_items depth rest of
             Inl e \<Rightarrow> Inl e
           | Inr parts \<Rightarrow> Inr ((quote # k @ [quote] @ '': '' @ r) # parts)))"
  by pat_completeness auto
termination
  by (relation "measure (\<lambda>x. case x of
                    Inl (depth, v) \<Rightarrow> size v
                  | Inr (depth, items) \<Rightarrow> size_list (size_prod (\<lambda>_. 0) size) items)") auto

definition py_str :: "nat \<Rightarrow> pyval \<Rightarrow> exn + string" where
  \<comment> \<open>\<open>str(v)\<close>\<close>
  "py_str depth v = (case v of PStr s \<Rightarrow> Inr s | _ \<Rightarrow> py_repr depth v)"

fun truthy :: "pyval \<Rightarrow> bool" where
  \<comment> \<open>the truth value of \<open>v\<close> in a condition\<close>
  "truthy PNone = False"
| "truthy (PBool b) = b"
| "truthy (PInt i) = (i \<noteq> 0)"
| "truthy (PStr s) = (s \<noteq> [])"
| "truthy (PDict items) = (items \<noteq> [])"

definition is_filled :: "nat \<Rightarrow> pyval \<Rightarrow> exn + bool" where
  \<comment> \<open>\<open>v and str(v).strip()\<close>: the string form is built only for a value that is true\<close>
  "is_filled depth v =
     (if truthy v then exn_bind (py_str depth v) (\<lambda>s. Inr (strip s \<noteq> [])) else Inr False)"

function json_dumps :: "nat \<Rightarrow> pyval \<Rightarrow> exn + unit"
  and json_dumps_items :: "nat \<Rightarrow> (string \<times> pyval) list \<Rightarrow> exn + unit" where
  \<comment> \<open>\<open>json.dumps(v, ensure_ascii=False)\<close>, with the number of nested dictionaries that
      can still be entered. The text goes to the debug log only, so the result says just
      whether the serialisation succeeds: an int is written in decimal, under the limit
      of 4300 digits.\<close>
  "json_dumps depth PNone = Inr ()"
| "json_dumps depth (PBool b) = Inr ()"
| "json_dumps depth (PInt i) = exn_bind (int_str i) (\<lambda>s. Inr ())"
| "json_dumps depth (PStr s) = Inr ()"
| "json_dumps depth (PDict items) =
     (case depth of
        0 \<Rightarrow> Inl RecursionError
      | Suc depth' \<Rightarrow> json_dumps_items depth' items)"
| "json_dumps_items depth [] = Inr ()"
| "json_dumps_items depth ((k, v) # rest) =
     (case json_dumps depth v of
        Inl e \<Rightarrow> Inl e
      | Inr u \<Rightarrow> json_dumps_items depth rest)"
  by pat_completeness auto
termination
  by (relation "measure (\<lambda>x. case x of
                    Inl (depth, v) \<Rightarrow> size v
                  | Inr (depth, items) \<Rightarrow> size_list (size_prod (\<lambda>_. 0) size) items)") auto

section \<open>Expected formats\<close>

definition get_expected_format :: "string \<Rightarrow> string" where
  "get_expected_format field_type =
     (if field_type = ''numeric'' then ''sequence of digits''
      else if field_type = ''phone'' then ''phone number (digits only)''
      else if field_type = ''date'' then ''date (day/month/year)''
      else if field_type = ''text'' then ''text (not only digits)''
      else if field_type = ''address'' then ''address (street, number, city, etc.)''
      else [])"

definition digits_ratio :: "string \<Rightarrow> real" where
  \<comment> \<open>\<open>sum(c.isdigit() for c in value) / len(value) if value else 0\<close>\<close>
  "digits_ratio v =
     (if v \<noteq> [] then real (length (filter isdigit_char v)) / real (length v) else 0)"

definition matches_expected_format :: "string \<Rightarrow> string \<Rightarrow> bool" where
  "matches_expected_format v expected_format =
     (if str_in ''digits only'' expected_format then digits_ratio v > 7 / 10
      else if str_in ''sequence of digits'' expected_format then digits_ratio v > 9 / 10
      else if str_in ''not only digits'' expected_format then digits_ratio v < 1 / 2
      else True)"

section \<open>Date coherence\<close>

text \<open>
  What the checks write to the log, as far as it is modelled: one constructor for each
  message (or group of messages written together).
\<close>

datatype finding =
    TypeSubstitution  \<comment> \<open>error: TYPE SUBSTITUTION DETECTED\<close>
  | TokenSimilar string string  \<comment> \<open>info: token not found, but similar to an OCR token\<close>
  | TokenNoMatch string  \<comment> \<open>warning: token not found and no similar match\<close>
  | TokensFound nat nat  \<comment> \<open>info: so many of so many significant tokens found\<close>
  | PossibleInvention  \<comment> \<open>warning POSSIBLE INVENTION and error SUSPICIOUS DATA\<close>
  | IncorrectFormat  \<comment> \<open>error: incorrect format for the field\<close>
  | ComponentNotFound string  \<comment> \<open>warning: component of a dictionary not found in OCR\<close>
  | SuspectField  \<comment> \<open>warnings: possible inconsistency, SUSPECT DATA for the whole field\<close>
  | ComponentsFound nat nat  \<comment> \<open>info: so many of so many components found\<close>
  | NonDigitDate  \<comment> \<open>warning: date components contain non-digit characters\<close>
  | InvalidDay  \<comment> \<open>error: day outside 1..31\<close>
  | InvalidMonth  \<comment> \<open>error: month outside 1..12\<close>
  | UnusualYear  \<comment> \<open>warning: year outside 1900..current year\<close>
  | DateValid  \<comment> \<open>info: the date is valid\<close>
  | FutureDateError  \<comment> \<open>error: future date for an injury, receipt or filling field\<close>
  | FutureDateWarning  \<comment> \<open>warning: future date\<close>
  | FillingBeforeInjury  \<comment> \<open>error: form filling date before injury date\<close>
  | InvalidDate  \<comment> \<open>error: invalid date (ValueError of \<open>datetime\<close>)\<close>
  | DateCheckError exn  \<comment> \<open>error: any other exception of the date coherence check\<close>

text \<open>The attribute of the validator object that the date check sets and reads.\<close>

record validator =
  injury_date :: "date option"  \<comment> \<open>\<open>None\<close>: the attribute does not exist yet\<close>

definition date_less :: "date \<Rightarrow> date \<Rightarrow> bool" where
  \<comment> \<open>comparison of two dates built by \<open>datetime(year, month, day)\<close>\<close>
  "date_less a b =
     (case (a, b) of ((y1, m1, d1), (y2, m2, d2)) \<Rightarrow>
        y1 < y2 \<or> (y1 = y2 \<and> (m1 < m2 \<or> (m1 = m2 \<and> d1 < d2))))"

fun isdigit_val :: "pyval \<Rightarrow> exn + bool" where
  \<comment> \<open>\<open>v.isdigit()\<close>: only a string has the method\<close>
  "isdigit_val (PStr s) = Inr (isdigit s)"
| "isdigit_val v = Inl AttributeError"

fun int_val :: "pyval \<Rightarrow> exn + int" where
  \<comment> \<open>\<open>int(v)\<close>\<close>
  "int_val (PStr s) = py_int s"
| "int_val (PInt i) = Inr i"
| "int_val (PBool b) = Inr (if b then 1 else 0)"
| "int_val v = Inl TypeError"

definition check_date_fields ::
  "validator \<Rightarrow> date \<Rightarrow> string \<Rightarrow> date \<Rightarrow> finding list \<times> validator" where
  \<comment> \<open>the part of the inner \<open>try\<close> after the date has been built; \<open>now\<close> is the day of
      \<open>datetime.now()\<close>: a date at midnight is later than now exactly when its day is
      later than today\<close>
  "check_date_fields self now field_name date_obj =
     (let name = lower field_name;
          future =
            (if date_less now date_obj
             then (if str_in ''injury'' name \<or> str_in ''receipt'' name \<or> str_in ''filling'' name
                   then [FutureDateError] else [FutureDateWarning])
             else []);
          self1 = (if str_in ''injury'' name then self\<lparr>injury_date := Some date_obj\<rparr> else self);
          before =
            (case injury_date self1 of
               None \<Rightarrow> []
             | Some injury \<Rightarrow>
                 if str_in ''filling'' name \<and> date_less date_obj injury
                 then [FillingBeforeInjury] else [])
      in (DateValid # future @ before, self1))"

definition has_key :: "(string \<times> pyval) list \<Rightarrow> string \<Rightarrow> bool" where
  \<comment> \<open>\<open>k in d\<close>\<close>
  "has_key d k = (map_of d k \<noteq> None)"

definition check_date_coherence_try ::
  "validator \<Rightarrow> date \<Rightarrow> string \<Rightarrow> (string \<times> pyval) list
     \<Rightarrow> exn + (finding list \<times> validator)" where
  \<comment> \<open>the body of the outer \<open>try\<close> of \<open>_check_date_coherence\<close>; an exception of
      \<open>datetime\<close> other than ValueError reaches the outer handler after the range
      messages have been logged\<close>
  "check_date_coherence_try self now field_name date_dict =
     (if \<not> (has_key date_dict ''day'' \<and> has_key date_dict ''month'' \<and> has_key date_dict ''year'')
      then Inr ([], self)
      else
        exn_bind (exn_bind (getitem (map_of date_dict) ''day'') isdigit_val) (\<lambda>day_ok.
        exn_bind (if day_ok then exn_bind (getitem (map_of date_dict) ''month'') isdigit_val
                  else Inr False) (\<lambda>month_ok.
        exn_bind (if month_ok then exn_bind (getitem (map_of date_dict) ''year'') isdigit_val
                  else Inr False) (\<lambda>year_ok.
        if \<not> year_ok then Inr ([NonDigitDate], self)
        else
          exn_bind (exn_bind (getitem (map_of date_dict) ''day'') int_val) (\<lambda>day.
          exn_bind (exn_bind (getitem (map_of date_dict) ''month'') int_val) (\<lambda>month.
          exn_bind (exn_bind (getitem (map_of date_dict) ''year'') int_val) (\<lambda>year.
          let ranges =
                (if \<not> (1 \<le> day \<and> day \<le> 31) then [InvalidDay] else [])
                @ (if \<not> (1 \<le> month \<and> month \<le> 12) then [InvalidMonth] else [])
                @ (if year < 1900 \<or> year > fst now then [UnusualYear] else [])
          in case datetime year month day of
               Inr date_obj \<Rightarrow>
                 (case check_date_fields self now field_name date_obj of
                    (fs, self1) \<Rightarrow> Inr (ranges @ fs, self1))
             | Inl e \<Rightarrow>
                 if e = ValueError then Inr (ranges @ [InvalidDate], self)
                 else Inr (ranges @ [DateCheckError e], self))))))))"

definition check_date_coherence ::
  "validator \<Rightarrow> date \<Rightarrow> string \<Rightarrow> (string \<times> pyval) list
     \<Rightarrow> exn + (finding list \<times> validator)" where
  \<comment> \<open>\<open>except Exception\<close>: every exception of the body is logged\<close>
  "check_date_coherence self now field_name date_dict =
     (case check_date_coherence_try self now field_name date_dict of
        Inl e \<Rightarrow> Inr ([DateCheckError e], self)
      | Inr r \<Rightarrow> Inr r)"

section \<open>Consistency of a value with the OCR text\<close>

fun lower_val :: "pyval \<Rightarrow> exn + string" where
  \<comment> \<open>\<open>v.lower()\<close>: only a string has the method\<close>
  "lower_val (PStr s) = Inr (lower s)"
| "lower_val v = Inl AttributeError"

fun str_item :: "pyval \<Rightarrow> exn + string" where
  \<comment> \<open>an item of the list given to \<open>' '.join\<close>, which accepts strings only\<close>
  "str_item (PStr s) = Inr s"
| "str_item v = Inl TypeError"

definition ocr_text_of :: "ocr_result \<Rightarrow> exn + string" where
  \<comment> \<open>\<open>" ".join([span.get("text", "").lower() for span in ocr_data.get("text", [])])\<close>\<close>
  "ocr_text_of ocr_data =
     exn_bind (map_exn (\<lambda>s. lower_val (text_of s)) (text_spans ocr_data)) (\<lambda>parts.
     Inr (join '' '' parts))"

definition ocr_tokens_of :: "ocr_result \<Rightarrow> exn + string list" where
  \<comment> \<open>\<open>' '.join([span.get("text", "") for span in ...]).lower().split()\<close>\<close>
  "ocr_tokens_of ocr_data =
     exn_bind (map_exn (\<lambda>s. str_item (text_of s)) (text_spans ocr_data)) (\<lambda>parts.
     Inr (split (lower (join '' '' parts))))"

fun closest_match_in :: "string \<Rightarrow> string list \<Rightarrow> real \<times> string \<Rightarrow> real \<times> string" where
  \<comment> \<open>the search for the most similar OCR token; the pair is \<open>match_score\<close> and
      \<open>closest_match\<close>\<close>
  "closest_match_in token [] best = best"
| "closest_match_in token (ocr_token # rest) (match_score, closest_match) =
     (if length ocr_token > 3
      then (let common = length (filter (\<lambda>c. c \<in> set ocr_token) token);
                score = real common / real (max (length token) (length ocr_token))
            in if score > 6 / 10 \<and> score > match_score
               then closest_match_in token rest (score, ocr_token)
               else closest_match_in token rest (match_score, closest_match))
      else closest_match_in token rest (match_score, closest_match))"

fun check_tokens ::
  "ocr_result \<Rightarrow> string \<Rightarrow> string list \<Rightarrow> exn + (string list \<times> string list \<times> finding list)" where
  \<comment> \<open>the loop over \<open>value_tokens\<close>: the result is \<open>tokens_found\<close>, \<open>tokens_not_found\<close>
      and what was logged\<close>
  "check_tokens ocr_data ocr_text [] = Inr ([], [], [])"
| "check_tokens ocr_data ocr_text (token # rest) =
     (if length token > 3
      then (if str_in token ocr_text
            then exn_bind (check_tokens ocr_data ocr_text rest) (\<lambda>(found, not_found, fs).
                   Inr (token # found, not_found, fs))
            else exn_bind (ocr_tokens_of ocr_data) (\<lambda>ocr_tokens.
                   let closest_match = snd (closest_match_in token ocr_tokens (0, []))
                   in exn_bind (check_tokens ocr_data ocr_text rest) (\<lambda>(found, not_found, fs).
                        Inr (found, token # not_found,
                             (if closest_match \<noteq> [] then TokenSimilar token closest_match
                              else TokenNoMatch token) # fs))))
      else check_tokens ocr_data ocr_text rest)"

definition check_scalar ::
  "string \<Rightarrow> string \<Rightarrow> ocr_result \<Rightarrow> string \<Rightarrow> exn + finding list" where
  \<comment> \<open>the part of \<open>_check_consistency_with_ocr\<close> for a value that is no dictionary\<close>
  "check_scalar field_name value_str ocr_data ocr_text =
     (let field_type = infer_field_type field_name;
          substitution1 =
            (if (field_type = ''numeric'' \<or> field_type = ''phone'')
                \<and> \<not> isdigit (replace_char CHR '' '' (replace_char CHR ''-'' value_str))
             then [TypeSubstitution] else []);
          substitution2 =
            (if field_type = ''text'' \<and> isdigit value_str then [TypeSubstitution] else [])
      in exn_bind (check_tokens ocr_data ocr_text (split value_str))
           (\<lambda>(tokens_found, tokens_not_found, fs).
              Inr (substitution1 @ substitution2 @ fs
                   @ (if tokens_found \<noteq> []
                      then [TokensFound (length tokens_found)
                              (length tokens_found + length tokens_not_found)]
                      else if tokens_not_found \<noteq> []
                      then PossibleInvention
                           # (let expected_format = get_expected_format field_type
                              in if expected_format \<noteq> []
                                    \<and> \<not> matches_expected_format value_str expected_format
                                 then [IncorrectFormat] else [])
                      else []))))"

fun count_components ::
  "nat \<Rightarrow> string \<Rightarrow> (string \<times> pyval) list \<Rightarrow> exn + (nat \<times> nat \<times> finding list)" where
  \<comment> \<open>the loop over the items of a dictionary value: \<open>components_found\<close>,
      \<open>components_total\<close> and the warnings logged; the first argument is the depth left
      to \<open>str\<close>\<close>
  "count_components depth ocr_text [] = Inr (0, 0, [])"
| "count_components depth ocr_text ((component_key, component_val) # rest) =
     exn_bind (is_filled depth component_val) (\<lambda>filled.
       if filled
       then exn_bind (py_str depth component_val) (\<lambda>s.
              exn_bind (count_components depth ocr_text rest) (\<lambda>(n_found, n_total, fs).
                if str_in (strip (lower s)) ocr_text
                then Inr (Suc n_found, Suc n_total, fs)
                else Inr (n_found, Suc n_total, ComponentNotFound component_key # fs)))
       else count_components depth ocr_text rest)"

definition check_components ::
  "limits \<Rightarrow> validator \<Rightarrow> date \<Rightarrow> string \<Rightarrow> (string \<times> pyval) list \<Rightarrow> string
     \<Rightarrow> exn + (finding list \<times> validator)" where
  \<comment> \<open>the part of \<open>_check_consistency_with_ocr\<close> for a dictionary value\<close>
  "check_components lims self now field_name items ocr_text =
     exn_bind (count_components (repr_depth lims) ocr_text items)
       (\<lambda>(components_found, components_total, fs).
          exn_bind
            (if ends_with (lower field_name) ''date'' \<and> has_key items ''day''
                \<and> has_key items ''month'' \<and> has_key items ''year''
             then check_date_coherence self now field_name items
             else Inr ([], self))
            (\<lambda>(date_fs, self1).
               Inr (fs @ date_fs
                    @ (if components_total > 0
                       then (if real components_found / real components_total < 1 / 2
                             then [SuspectField]
                             else [ComponentsFound components_found components_total])
                       else []),
                    self1)))"

definition check_consistency_with_ocr ::
  "limits \<Rightarrow> validator \<Rightarrow> date \<Rightarrow> string \<Rightarrow> pyval \<Rightarrow> ocr_result
     \<Rightarrow> exn + (finding list \<times> validator)" where
  \<comment> \<open>the result is what was logged and the validator object afterwards; the similarity
      score, which is only written to the debug log, is left out\<close>
  "check_consistency_with_ocr lims self now field_name v ocr_data =
     exn_bind (py_str (repr_depth lims) v) (\<lambda>s.
       let value_str = strip (lower s)
       in if value_str = [] \<or> length value_str \<le> 3 then Inr ([], self)
          else exn_bind (ocr_text_of ocr_data) (\<lambda>ocr_text.
                 case v of
                   PDict items \<Rightarrow> check_components lims self now field_name items ocr_text
                 | _ \<Rightarrow> exn_bind (check_scalar field_name value_str ocr_data ocr_text) (\<lambda>fs.
                          Inr (fs, self))))"

section \<open>Validation of the extracted data\<close>

fun dict_set :: "(string \<times> 'v) list \<Rightarrow> string \<Rightarrow> 'v \<Rightarrow> (string \<times> 'v) list" where
  \<comment> \<open>\<open>d[k] = v\<close> on the list of items: an existing key keeps its place\<close>
  "dict_set [] k v = [(k, v)]"
| "dict_set ((k', v') # rest) k v =
     (if k' = k then (k', v) # rest else (k', v') # dict_set rest k v)"

definition dict_update :: "(string \<times> 'v) list \<Rightarrow> (string \<times> 'v) list \<Rightarrow> (string \<times> 'v) list" where
  \<comment> \<open>\<open>d.update(other)\<close>\<close>
  "dict_update d other = fold (\<lambda>kv acc. dict_set acc (fst kv) (snd kv)) other d"

function flatten_into ::
  "nat \<Rightarrow> (string \<times> pyval) list \<Rightarrow> string \<Rightarrow> (string \<times> pyval) list
     \<Rightarrow> exn + (string \<times> pyval) list" where
  \<comment> \<open>the loop of \<open>_flatten_dict\<close> over the items of \<open>d\<close>; the last argument is
      \<open>items\<close>, the first the number of calls that can still nest: the call for a nested
      dictionary raises RecursionError when none is left\<close>
  "flatten_into depth [] parent_key items = Inr items"
| "flatten_into depth ((k, v) # rest) parent_key items =
     (let new_key = (if parent_key \<noteq> [] then parent_key @ ''.'' @ k else k)
      in case v of
           PDict sub \<Rightarrow>
             (case depth of
                0 \<Rightarrow> Inl RecursionError
              | Suc depth' \<Rightarrow>
                  (case flatten_into depth' sub new_key [] of
                     Inl e \<Rightarrow> Inl e
                   | Inr sub_items \<Rightarrow>
                       flatten_into depth rest parent_key (dict_update items sub_items)))
         | _ \<Rightarrow> flatten_into depth rest parent_key (dict_set items new_key v))"
  by pat_completeness auto
termination
  by (relation "measure (\<lambda>(depth, d, parent_key, items). size_list (size_prod (\<lambda>_. 0) size) d)")
     auto

definition flatten_dict ::
  "nat \<Rightarrow> (string \<times> pyval) list \<Rightarrow> string \<Rightarrow> exn + (string \<times> pyval) list" where
  "flatten_dict depth d parent_key = flatten_into depth d parent_key []"

definition required_fields :: "string list" where
  "required_fields = [''lastName'', ''firstName'', ''idNumber'']"

definition count_filled :: "nat \<Rightarrow> (string \<times> pyval) list \<Rightarrow> exn + nat" where
  \<comment> \<open>\<open>sum(1 for v in flat_data.values() if v and str(v).strip())\<close>; the loop that logs
      the fields before it evaluates the same condition on the same values\<close>
  "count_filled depth flat_data =
     exn_bind (map_exn (\<lambda>kv. is_filled depth (snd kv)) flat_data) (\<lambda>bs.
     Inr (length (filter (\<lambda>b. b) bs)))"

fun missing_in :: "nat \<Rightarrow> string \<Rightarrow> (string \<times> pyval) list \<Rightarrow> exn + string list" where
  \<comment> \<open>the inner loop of the check of one required field: the keys it appends to
      \<open>missing_required\<close>\<close>
  "missing_in depth field [] = Inr []"
| "missing_in depth field ((key, v) # rest) =
     (if ends_with key field
      then exn_bind (is_filled depth v) (\<lambda>filled.
             exn_bind (missing_in depth field rest) (\<lambda>keys.
               Inr (if filled then keys else key # keys)))
      else missing_in depth field rest)"

definition missing_required_of :: "nat \<Rightarrow> (string \<times> pyval) list \<Rightarrow> exn + string list" where
  \<comment> \<open>the keys appended to \<open>missing_required\<close> by the loop over the required fields\<close>
  "missing_required_of depth flat_data =
     exn_bind (map_exn (\<lambda>field. missing_in depth field flat_data) required_fields) (\<lambda>keys.
     Inr (concat keys))"

definition last_segment :: "string \<Rightarrow> string" where
  \<comment> \<open>\<open>key.split(".")[-1]\<close>\<close>
  "last_segment key = rev (takeWhile (\<lambda>c. c \<noteq> CHR ''.'') (rev key))"

record invalid_field =
  inv_field :: string
  inv_value :: pyval
  inv_reason :: string

record completeness =
  filled_fields :: nat
  total_fields :: nat
  score :: real
  missing_required :: "string list"

record accuracy =
  valid_format_fields :: nat
  acc_total_fields :: nat
  acc_score :: real
  invalid_fields :: "invalid_field list"

record validation_result =
  res_completeness :: completeness
  res_accuracy :: accuracy
  res_confidence :: real

fun check_fields ::
  "limits \<Rightarrow> validator \<Rightarrow> date \<Rightarrow> ocr_result \<Rightarrow> (string \<times> pyval) list \<Rightarrow> accuracy
     \<Rightarrow> exn + (accuracy \<times> validator)" where
  \<comment> \<open>the loop "format validation for all fields" over the items of \<open>flat_data\<close>\<close>
  "check_fields lims self now ocr_data [] acc = Inr (acc, self)"
| "check_fields lims self now ocr_data ((key, v) # rest) acc =
     (if str_in ''confidences'' key \<or> str_in ''confidence'' key
      then check_fields lims self now ocr_data rest acc
      else let field_name = last_segment key
           in (case is_filled (repr_depth lims) v of
                Inl e \<Rightarrow> Inl e
              | Inr filled \<Rightarrow>
                if filled
                then (case check_consistency_with_ocr lims self now field_name v ocr_data of
                         Inl e \<Rightarrow> Inl e
                       | Inr (fs, self1) \<Rightarrow>
                          (case py_str (repr_depth lims) v of
                             Inl e \<Rightarrow> Inl e
                           | Inr s \<Rightarrow>
                            if validate_format field_name s
                            then check_fields lims self1 now ocr_data rest
                                   (acc\<lparr>acc_total_fields := acc_total_fields acc + 1,
                                        valid_format_fields := valid_format_fields acc + 1\<rparr>)
                            else check_fields lims self1 now ocr_data rest
                                   (acc\<lparr>acc_total_fields := acc_total_fields acc + 1,
                                        invalid_fields := invalid_fields acc
                                          @ [\<lparr>inv_field = key, inv_value = v,
                                               inv_reason = ''Invalid format''\<rparr>]\<rparr>)))
                else check_fields lims self now ocr_data rest acc))"

definition validate_extracted_data ::
  "limits \<Rightarrow> validator \<Rightarrow> date \<Rightarrow> (string \<times> pyval) list \<Rightarrow> ocr_result
     \<Rightarrow> exn + (validation_result \<times> validator)" where
  \<comment> \<open>the result is the returned dictionary and the validator object afterwards. The
      first step is the \<open>json.dumps\<close> of the argument to \<open>logger.debug\<close>, which is
      evaluated whatever the log level. The messages themselves are formatted by the
      logging module, which swallows the exceptions of its formatting, and the
      \<open>json.dumps\<close> of the invalid fields at the end serialises leaves that the first
      step has already serialised.\<close>
  "validate_extracted_data lims self now structured_data ocr_data =
     exn_bind (json_dumps (json_depth lims) (PDict structured_data)) (\<lambda>u.
     let confidence = (case average_confidence ocr_data of None \<Rightarrow> 0 | Some c \<Rightarrow> c)
     in exn_bind (flatten_dict (call_depth lims) structured_data []) (\<lambda>flat_data.
        let n_total = length flat_data
        in exn_bind (count_filled (repr_depth lims) flat_data) (\<lambda>n_filled.
           exn_bind (missing_required_of (repr_depth lims) flat_data) (\<lambda>missing.
           exn_bind (check_fields lims self now ocr_data flat_data
                       \<lparr>valid_format_fields = 0, acc_total_fields = 0, acc_score = 0,
                        invalid_fields = []\<rparr>)
             (\<lambda>(acc, self1).
                Inr (\<lparr>res_completeness =
                        \<lparr>filled_fields = n_filled, total_fields = n_total,
                         score = (if n_total > 0 then real n_filled / real n_total else 0),
                         missing_required = missing\<rparr>,
                      res_accuracy =
                        acc\<lparr>acc_score :=
                              (if acc_total_fields acc > 0
                               then real (valid_format_fields acc) / real (acc_total_fields acc)
                               else 0)\<rparr>,
                      res_confidence = confidence\<rparr>,
                     self1))))))"

section \<open>Notions used in the statements\<close>

fun is_str :: "pyval \<Rightarrow> bool" where
  \<comment> \<open>\<open>isinstance(v, str)\<close>\<close>
  "is_str (PStr s) = True"
| "is_str v = False"

definition string_texts :: "ocr_result \<Rightarrow> bool" where
  \<comment> \<open>every span of the OCR result has a string as its text (or no text at all)\<close>
  "string_texts ocr_data = list_all (\<lambda>s. is_str (text_of s)) (text_spans ocr_data)"

definition significant_tokens :: "string \<Rightarrow> string list" where
  \<comment> \<open>the whitespace-separated tokens of more than three characters of a string (the
      lower-cased and stripped string form of a value)\<close>
  "significant_tokens value_str = filter (\<lambda>t. length t > 3) (split value_str)"

fun nonempty_value :: "pyval \<Rightarrow> bool" where
  \<comment> \<open>a value that is non-empty after trimming: a string with a character that is no
      whitespace; a value that is no string is empty when it is \<open>None\<close>, \<open>False\<close>,
      0 or an empty dictionary\<close>
  "nonempty_value (PStr s) = (strip s \<noteq> [])"
| "nonempty_value PNone = False"
| "nonempty_value (PBool b) = b"
| "nonempty_value (PInt i) = (i \<noteq> 0)"
| "nonempty_value (PDict items) = (items \<noteq> [])"

definition found_in :: "nat \<Rightarrow> string \<Rightarrow> pyval \<Rightarrow> bool" where
  \<comment> \<open>the lower-cased and stripped string form of the value occurs in the text\<close>
  "found_in depth ocr_text v =
     (case py_str depth v of Inr s \<Rightarrow> str_in (strip (lower s)) ocr_text | Inl e \<Rightarrow> False)"

definition found_components ::
  "nat \<Rightarrow> string \<Rightarrow> (string \<times> pyval) list \<Rightarrow> (string \<times> pyval) list" where
  \<comment> \<open>the non-empty components of a dictionary value that are found verbatim in the OCR
      text\<close>
  "found_components depth ocr_text items =
     filter (\<lambda>kv. nonempty_value (snd kv) \<and> found_in depth ocr_text (snd kv)) items"

definition filled_components :: "(string \<times> pyval) list \<Rightarrow> (string \<times> pyval) list" where
  \<comment> \<open>the non-empty components of a dictionary value\<close>
  "filled_components items = filter (\<lambda>kv. nonempty_value (snd kv)) items"

definition component_date :: "(string \<times> pyval) list \<Rightarrow> date option" where
  \<comment> \<open>the calendar date that the components \<open>day\<close>, \<open>month\<close> and \<open>year\<close> of a
      dictionary value denote, if they are three strings of digits that do\<close>
  "component_date items =
     (case (map_of items ''day'', map_of items ''month'', map_of items ''year'') of
        (Some (PStr ds), Some (PStr ms), Some (PStr ys)) \<Rightarrow>
          (if isdigit ds \<and> isdigit ms \<and> isdigit ys
           then (case (py_int ds, py_int ms, py_int ys) of
                   (Inr d, Inr m, Inr y) \<Rightarrow>
                     if calendar_date y m d then Some (y, m, d) else None
                 | _ \<Rightarrow> None)
           else None)
      | _ \<Rightarrow> None)"

definition validator_after :: "validator \<Rightarrow> string \<Rightarrow> pyval \<Rightarrow> validator" where
  \<comment> \<open>the validator object after the consistency check of a field: the check of a
      dictionary value whose field name ends with "date" and contains "injury" stores
      the date of its components, when they denote one; nothing else is written\<close>
  "validator_after self field_name v =
     (case v of
        PDict items \<Rightarrow>
          (if ends_with (lower field_name) ''date'' \<and> str_in ''injury'' (lower field_name)
           then (case component_date items of
                   Some d \<Rightarrow> self\<lparr>injury_date := Some d\<rparr>
                 | None \<Rightarrow> self)
           else self)
      | _ \<Rightarrow> self)"

definition confidence_key :: "string \<Rightarrow> bool" where
  \<comment> \<open>a flattened key that the accuracy loop skips\<close>
  "confidence_key key = (str_in ''confidences'' key \<or> str_in ''confidence'' key)"

function leaf_fields :: "string \<Rightarrow> (string \<times> pyval) list \<Rightarrow> (string \<times> pyval) list" where
  \<comment> \<open>the leaves of a nested extraction (the values that are no dictionaries) in the
      order of the document, each with its path: the keys from the root to the leaf,
      joined by dots, below the given prefix\<close>
  "leaf_fields prefix [] = []"
| "leaf_fields prefix ((k, v) # rest) =
     (let path = (if prefix \<noteq> [] then prefix @ ''.'' @ k else k)
      in (case v of PDict sub \<Rightarrow> leaf_fields path sub | _ \<Rightarrow> [(path, v)])
         @ leaf_fields prefix rest)"
  by pat_completeness auto
termination
  by (relation "measure (\<lambda>(prefix, d). size_list (size_prod (\<lambda>_. 0) size) d)") auto

definition leaf_paths :: "(string \<times> pyval) list \<Rightarrow> string list" where
  \<comment> \<open>the paths of the leaves, each path once\<close>
  "leaf_paths d = remdups (map fst (leaf_fields [] d))"

definition leaf_value :: "(string \<times> pyval) list \<Rightarrow> string \<Rightarrow> pyval option" where
  \<comment> \<open>the value at a path: that of the last leaf with this path\<close>
  "leaf_value d path = map_of (rev (leaf_fields [] d)) path"

definition filled_path :: "(string \<times> pyval) list \<Rightarrow> string \<Rightarrow> bool" where
  \<comment> \<open>the value at the path is non-empty after trimming\<close>
  "filled_path d path =
     (case leaf_value d path of Some v \<Rightarrow> nonempty_value v | None \<Rightarrow> False)"

definition validated_fields :: "(string \<times> pyval) list \<Rightarrow> (string \<times> pyval) list" where
  \<comment> \<open>the fields of a flattened extraction that are subject to validation: the non-empty
      ones whose key is no confidence key\<close>
  "validated_fields flat =
     filter (\<lambda>kv. \<not> confidence_key (fst kv) \<and> nonempty_value (snd kv)) flat"

definition format_ok :: "limits \<Rightarrow> string \<times> pyval \<Rightarrow> bool" where
  \<comment> \<open>the string form of the value of a field passes \<open>validate_format\<close> under the last
      segment of its key\<close>
  "format_ok lims kv =
     (case py_str (repr_depth lims) (snd kv) of
        Inr s \<Rightarrow> validate_format (last_segment (fst kv)) s
      | Inl e \<Rightarrow> False)"

definition long_value :: "limits \<Rightarrow> string \<times> pyval \<Rightarrow> bool" where
  \<comment> \<open>the lower-cased and stripped string form of the value of a field has more than
      three characters\<close>
  "long_value lims kv =
     (case py_str (repr_depth lims) (snd kv) of
        Inr s \<Rightarrow> 3 < length (strip (lower s))
      | Inl e \<Rightarrow> False)"

definition ratio :: "nat \<Rightarrow> nat \<Rightarrow> real" where
  \<comment> \<open>a part of a total, 0 for an empty total\<close>
  "ratio n n_total = (if n_total > 0 then real n / real n_total else 0)"

definition expected_result ::
  "limits \<Rightarrow> ocr_result \<Rightarrow> (string \<times> pyval) list \<Rightarrow> validation_result" where
  \<comment> \<open>the validation result in which every field of a flattened extraction is counted
      and every validated field is checked against its format\<close>
  "expected_result lims ocr_data flat =
     \<lparr>res_completeness =
        \<lparr>filled_fields = length (filter (\<lambda>kv. nonempty_value (snd kv)) flat),
         total_fields = length flat,
         score = ratio (length (filter (\<lambda>kv. nonempty_value (snd kv)) flat)) (length flat),
         missing_required =
           concat (map (\<lambda>field. map fst (filter (\<lambda>kv. ends_with (fst kv) field
                                                      \<and> \<not> nonempty_value (snd kv)) flat))
                       required_fields)\<rparr>,
      res_accuracy =
        \<lparr>valid_format_fields = length (filter (format_ok lims) (validated_fields flat)),
         acc_total_fields = length (validated_fields flat),
         acc_score = ratio (length (filter (format_ok lims) (validated_fields flat)))
                       (length (validated_fields flat)),
         invalid_fields =
           map (\<lambda>kv. \<lparr>inv_field = fst kv, inv_value = snd kv, inv_reason = ''Invalid format''\<rparr>)
               (filter (\<lambda>kv. \<not> format_ok lims kv) (validated_fields flat))\<rparr>,
      res_confidence = (case average_confidence ocr_data of None \<Rightarrow> 0 | Some c \<Rightarrow> c)\<rparr>"

definition no_text_span :: span where
  \<comment> \<open>a span whose text is \<open>None\<close>\<close>
  "no_text_span = \<lparr>span_text = Some PNone, span_confidence = None, span_bounding_box = None\<rparr>"

definition new_validator :: validator where
  \<comment> \<open>the validator object after \<open>__init__\<close>\<close>
  "new_validator = \<lparr>injury_date = None\<rparr>"

definition john_smith_ocr :: ocr_result where
  \<comment> \<open>an OCR result with the single line "John Smith"\<close>
  "john_smith_ocr = \<lparr>text_spans = [plain_span ''John Smith'' 1], tables = [],
                      average_confidence = Some 1\<rparr>"

definition no_text_ocr :: ocr_result where
  \<comment> \<open>an OCR result with a single span whose text is \<open>None\<close>\<close>
  "no_text_ocr = \<lparr>text_spans = [no_text_span], tables = [], average_confidence = None\<rparr>"

definition ten_fields :: "(string \<times> pyval) list" where
  \<comment> \<open>an extraction with ten leaf fields, seven of them non-empty\<close>
  "ten_fields =
     [(''lastName'', PStr ''Cohen''), (''firstName'', PStr ''David''),
      (''idNumber'', PStr ''123456789''),
      (''dateOfBirth'', PDict [(''day'', PStr ''5''), (''month'', PStr ''3''),
                               (''year'', PStr ''1990'')]),
      (''address'', PDict [(''street'', PStr []), (''city'', PStr ''Haifa''),
                           (''postalCode'', PStr '' '')]),
      (''mobilePhone'', PStr [])]"

definition ten_flat :: "(string \<times> pyval) list" where
  \<comment> \<open>the flattened form of \<open>ten_fields\<close>\<close>
  "ten_flat =
     [(''lastName'', PStr ''Cohen''), (''firstName'', PStr ''David''),
      (''idNumber'', PStr ''123456789''),
      (''dateOfBirth.day'', PStr ''5''), (''dateOfBirth.month'', PStr ''3''),
      (''dateOfBirth.year'', PStr ''1990''),
      (''address.street'', PStr []), (''address.city'', PStr ''Haifa''),
      (''address.postalCode'', PStr '' ''), (''mobilePhone'', PStr [])]"

definition injury_date_2020 :: "(string \<times> pyval) list" where
  \<comment> \<open>the date of 1 January 2020 by its components\<close>
  "injury_date_2020 = [(''day'', PStr ''1''), (''month'', PStr ''1''), (''year'', PStr ''2020'')]"

definition colliding_fields :: "(string \<times> pyval) list" where
  \<comment> \<open>an extraction with two leaves of the same path \<open>a.b\<close>\<close>
  "colliding_fields = [(''a.b'', PStr ''x''), (''a'', PDict [(''b'', PStr [])])]"

section \<open>Dictionaries as mutable objects\<close>

text \<open>
  To speak about mutation, the objects are placed in a store. A dictionary of the
  structured data is a cell of the store; a nested dictionary is a reference to another
  cell. The OCR result is one cell, and so is the validation result under construction
  (with its nested dictionaries and lists). A new object gets the next free address.
\<close>

type_synonym addr = nat

datatype hval = VNone | VBool bool | VInt int | VStr string | VRef addr

type_synonym hdict = "(string \<times> hval) list"

record store =
  dict_cells :: "hdict list"
  ocr_cells :: "ocr_result list"
  result_cells :: "validation_result list"

definition new_dict :: "store \<Rightarrow> addr \<times> store" where
  \<comment> \<open>\<open>{}\<close>: a new, empty dictionary\<close>
  "new_dict st = (length (dict_cells st), st\<lparr>dict_cells := dict_cells st @ [[]]\<rparr>)"

definition put_dict :: "addr \<Rightarrow> hdict \<Rightarrow> store \<Rightarrow> store" where
  \<comment> \<open>a write to the dictionary at an address\<close>
  "put_dict a d st = st\<lparr>dict_cells := (dict_cells st)[a := d]\<rparr>"

definition new_result :: "validation_result \<Rightarrow> store \<Rightarrow> addr \<times> store" where
  \<comment> \<open>the construction of the dictionary \<open>validation_result\<close>\<close>
  "new_result r st = (length (result_cells st), st\<lparr>result_cells := result_cells st @ [r]\<rparr>)"

definition modify_result ::
  "addr \<Rightarrow> (validation_result \<Rightarrow> validation_result) \<Rightarrow> store \<Rightarrow> store" where
  \<comment> \<open>a write to the validation result at an address\<close>
  "modify_result a f st = st\<lparr>result_cells := (result_cells st)[a := f (result_cells st ! a)]\<rparr>"

definition read_ocr :: "addr \<Rightarrow> store \<Rightarrow> exn + ocr_result" where
  \<comment> \<open>a read of the OCR result; an address without object cannot occur in Python and
      is an error of the model\<close>
  "read_ocr a st = (if a < length (ocr_cells st) then Inr (ocr_cells st ! a) else Inl KeyError)"

fun scalar_of :: "hval \<Rightarrow> pyval" where
  \<comment> \<open>a value that is no dictionary; a flattened dictionary holds no references, so the
      last equation is never used on its values\<close>
  "scalar_of VNone = PNone"
| "scalar_of (VBool b) = PBool b"
| "scalar_of (VInt i) = PInt i"
| "scalar_of (VStr s) = PStr s"
| "scalar_of (VRef a) = PDict []"

function flatten_loop ::
  "nat \<Rightarrow> hdict \<Rightarrow> string \<Rightarrow> addr \<Rightarrow> store \<Rightarrow> (exn + unit) \<times> store" where
  \<comment> \<open>the loop of \<open>_flatten_dict\<close> over the items of \<open>d\<close>, writing to the dictionary at
      the address \<open>items\<close>. The first argument is the recursion depth that is left: the
      recursive call for a nested dictionary creates its own \<open>items\<close> and runs its own
      loop, and Python raises RecursionError when the depth is used up.\<close>
  "flatten_loop depth [] parent_key items st = (Inr (), st)"
| "flatten_loop depth ((k, v) # rest) parent_key items st =
     (let new_key = (if parent_key \<noteq> [] then parent_key @ ''.'' @ k else k)
      in case v of
           VRef r \<Rightarrow>
             (if r < length (dict_cells st)
              then (case depth of
                      0 \<Rightarrow> (Inl RecursionError, st)
                    | Suc depth' \<Rightarrow>
                        (case new_dict st of
                           (sub_items, st1) \<Rightarrow>
                             (case flatten_loop depth' (dict_cells st1 ! r) new_key sub_items st1 of
                                (Inl e, st2) \<Rightarrow> (Inl e, st2)
                              | (Inr u, st2) \<Rightarrow>
                                  flatten_loop depth rest parent_key items
                                    (put_dict items
                                       (dict_update (dict_cells st2 ! items)
                                          (dict_cells st2 ! sub_items))
                                       st2))))
              else (Inl KeyError, st))
         | _ \<Rightarrow>
             flatten_loop depth rest parent_key items
               (put_dict items (dict_set (dict_cells st ! items) new_key v) st))"
  by pat_completeness auto
termination
  by (relation "measures [\<lambda>(depth, d, parent_key, items, st). depth,
                          \<lambda>(depth, d, parent_key, items, st). length d]") auto

definition flatten_dict_obj :: "nat \<Rightarrow> addr \<Rightarrow> string \<Rightarrow> store \<Rightarrow> (exn + addr) \<times> store" where
  \<comment> \<open>\<open>_flatten_dict(d, parent_key)\<close> on the store: the result is the address of the new
      dictionary \<open>items\<close>\<close>
  "flatten_dict_obj depth d parent_key st =
     (if d < length (dict_cells st)
      then (case new_dict st of
              (items, st1) \<Rightarrow>
                (case flatten_loop depth (dict_cells st1 ! d) parent_key items st1 of
                   (Inl e, st2) \<Rightarrow> (Inl e, st2)
                 | (Inr u, st2) \<Rightarrow> (Inr items, st2)))
      else (Inl KeyError, st))"

function json_dumps_loop ::
  "nat \<Rightarrow> addr list \<Rightarrow> hdict \<Rightarrow> store \<Rightarrow> exn + unit" where
  \<comment> \<open>\<open>json.dumps\<close> over the items of a dictionary of the store, which it only reads.
      The second argument holds the dictionaries that are being serialised: meeting one
      of them again is a circular reference, which raises ValueError.\<close>
  "json_dumps_loop depth markers [] st = Inr ()"
| "json_dumps_loop depth markers ((k, v) # rest) st =
     (case v of
        VRef r \<Rightarrow>
          (if r < length (dict_cells st)
           then (case depth of
                   0 \<Rightarrow> Inl RecursionError
                 | Suc depth' \<Rightarrow>
                     if r \<in> set markers then Inl ValueError
                     else (case json_dumps_loop depth' (r # markers) (dict_cells st ! r) st of
                             Inl e \<Rightarrow> Inl e
                           | Inr u \<Rightarrow> json_dumps_loop depth markers rest st))
           else Inl KeyError)
      | VInt i \<Rightarrow>
          (case int_str i of
             Inl e \<Rightarrow> Inl e
           | Inr s \<Rightarrow> json_dumps_loop depth markers rest st)
      | _ \<Rightarrow> json_dumps_loop depth markers rest st)"
  by pat_completeness auto
termination
  by (relation "measures [\<lambda>(depth, markers, d, st). depth,
                          \<lambda>(depth, markers, d, st). length d]") auto

definition json_dumps_obj :: "nat \<Rightarrow> addr \<Rightarrow> store \<Rightarrow> exn + unit" where
  \<comment> \<open>\<open>json.dumps(d)\<close> for the dictionary at an address\<close>
  "json_dumps_obj depth d st =
     (if d < length (dict_cells st)
      then (case depth of
              0 \<Rightarrow> Inl RecursionError
            | Suc depth' \<Rightarrow> json_dumps_loop depth' [d] (dict_cells st ! d) st)
      else Inl KeyError)"

fun check_fields_obj ::
  "limits \<Rightarrow> validator \<Rightarrow> date \<Rightarrow> addr \<Rightarrow> addr \<Rightarrow> hdict \<Rightarrow> store
     \<Rightarrow> (exn + validator) \<times> store" where
  \<comment> \<open>the loop "format validation for all fields" on the store: \<open>ocr\<close> is the address
      of the OCR result, \<open>res\<close> the address of the validation result\<close>
  "check_fields_obj lims self now ocr res [] st = (Inr self, st)"
| "check_fields_obj lims self now ocr res ((key, v) # rest) st =
     (if str_in ''confidences'' key \<or> str_in ''confidence'' key
      then check_fields_obj lims self now ocr res rest st
      else let field_name = last_segment key
           in case is_filled (repr_depth lims) (scalar_of v) of
                Inl e \<Rightarrow> (Inl e, st)
              | Inr filled \<Rightarrow>
                  if filled
                  then (let st1 = modify_result res (\<lambda>r. r\<lparr>res_accuracy := (res_accuracy r)
                                  \<lparr>acc_total_fields := acc_total_fields (res_accuracy r) + 1\<rparr>\<rparr>) st
                        in case exn_bind (read_ocr ocr st1) (\<lambda>ocr_data.
                                  exn_bind (check_consistency_with_ocr lims self now field_name
                                              (scalar_of v) ocr_data) (\<lambda>(fs, self1).
                                  exn_bind (py_str (repr_depth lims) (scalar_of v)) (\<lambda>s.
                                  Inr (self1, s)))) of
                             Inl e \<Rightarrow> (Inl e, st1)
                           | Inr (self1, s) \<Rightarrow>
                               if validate_format field_name s
                               then check_fields_obj lims self1 now ocr res rest
                                      (modify_result res (\<lambda>r. r\<lparr>res_accuracy := (res_accuracy r)
                                         \<lparr>valid_format_fields :=
                                            valid_format_fields (res_accuracy r) + 1\<rparr>\<rparr>) st1)
                               else check_fields_obj lims self1 now ocr res rest
                                      (modify_result res (\<lambda>r. r\<lparr>res_accuracy := (res_accuracy r)
                                         \<lparr>invalid_fields := invalid_fields (res_accuracy r)
                                            @ [\<lparr>inv_field = key, inv_value = scalar_of v,
                                                 inv_reason = ''Invalid format''\<rparr>]\<rparr>\<rparr>) st1))
                  else check_fields_obj lims self now ocr res rest st)"

definition initial_result :: "real \<Rightarrow> validation_result" where
  \<comment> \<open>the dictionary \<open>validation_result\<close> as first built\<close>
  "initial_result confidence =
     \<lparr>res_completeness = \<lparr>filled_fields = 0, total_fields = 0, score = 0, missing_required = []\<rparr>,
      res_accuracy = \<lparr>valid_format_fields = 0, acc_total_fields = 0, acc_score = 0,
                      invalid_fields = []\<rparr>,
      res_confidence = confidence\<rparr>"

definition final_scores :: "nat \<Rightarrow> nat \<Rightarrow> validation_result \<Rightarrow> validation_result" where
  \<comment> \<open>the assignments under "Calculer les scores"\<close>
  "final_scores n_filled n_total r =
     r\<lparr>res_completeness := (res_completeness r)
          \<lparr>filled_fields := n_filled, total_fields := n_total,
           score := (if n_total > 0 then real n_filled / real n_total else 0)\<rparr>,
       res_accuracy := (res_accuracy r)
          \<lparr>acc_score :=
             (if acc_total_fields (res_accuracy r) > 0
              then real (valid_format_fields (res_accuracy r))
                   / real (acc_total_fields (res_accuracy r))
              else 0)\<rparr>\<rparr>"

definition validate_extracted_data_obj ::
  "limits \<Rightarrow> validator \<Rightarrow> date \<Rightarrow> addr \<Rightarrow> addr \<Rightarrow> store
     \<Rightarrow> (exn + (addr \<times> validator)) \<times> store" where
  \<comment> \<open>\<open>validate_extracted_data(structured_data, ocr_data)\<close> on the store, both arguments
      given by their addresses; the result is the address of the validation result, the
      validator object afterwards, and the store afterwards\<close>
  "validate_extracted_data_obj lims self now structured_data ocr st =
     (case json_dumps_obj (json_depth lims) structured_data st of
        Inl e \<Rightarrow> (Inl e, st)
      | Inr u \<Rightarrow>
     (case read_ocr ocr st of
        Inl e \<Rightarrow> (Inl e, st)
      | Inr ocr_data \<Rightarrow>
          (case new_result (initial_result
                  (case average_confidence ocr_data of None \<Rightarrow> 0 | Some c \<Rightarrow> c)) st of
             (res, st1) \<Rightarrow>
               (case flatten_dict_obj (call_depth lims) structured_data [] st1 of
                  (Inl e, st2) \<Rightarrow> (Inl e, st2)
                | (Inr flat_data, st2) \<Rightarrow>
                    (let flat = map (\<lambda>kv. (fst kv, scalar_of (snd kv))) (dict_cells st2 ! flat_data);
                         n_total = length flat
                     in case count_filled (repr_depth lims) flat of
                          Inl e \<Rightarrow> (Inl e, st2)
                        | Inr n_filled \<Rightarrow>
                     (case missing_required_of (repr_depth lims) flat of
                          Inl e \<Rightarrow> (Inl e, st2)
                        | Inr missing \<Rightarrow>
                     (let st3 = modify_result res (\<lambda>r. r\<lparr>res_completeness := (res_completeness r)
                                 \<lparr>missing_required := missing\<rparr>\<rparr>) st2
                      in case check_fields_obj lims self now ocr res (dict_cells st3 ! flat_data) st3 of
                          (Inl e, st4) \<Rightarrow> (Inl e, st4)
                        | (Inr self1, st4) \<Rightarrow>
                            (Inr (res, self1),
                             modify_result res (final_scores n_filled n_total) st4))))))))"

definition unchanged :: "store \<Rightarrow> store \<Rightarrow> bool" where
  \<comment> \<open>every object of the first store is in the second store, at the same address and
      with the same content\<close>
  "unchanged st st' =
     (take (length (dict_cells st)) (dict_cells st') = dict_cells st
      \<and> ocr_cells st' = ocr_cells st
      \<and> take (length (result_cells st)) (result_cells st') = result_cells st)"

definition example_store :: store where
  \<comment> \<open>a store with the extraction \<open>ten_fields\<close> (its two nested dictionaries at the
      addresses 0 and 1, the outer dictionary at address 2) and the OCR result
      \<open>john_smith_ocr\<close>\<close>
  "example_store =
     \<lparr>dict_cells =
        [[(''day'', VStr ''5''), (''month'', VStr ''3''), (''year'', VStr ''1990'')],
         [(''street'', VStr []), (''city'', VStr ''Haifa''), (''postalCode'', VStr '' '')],
         [(''lastName'', VStr ''Cohen''), (''firstName'', VStr ''David''),
          (''idNumber'', VStr ''123456789''), (''dateOfBirth'', VRef 0),
          (''address'', VRef 1), (''mobilePhone'', VStr [])]],
      ocr_cells = [john_smith_ocr],
      result_cells = []\<rparr>"

text \<open>
  The value that a dictionary of the store denotes: its items with every reference
  replaced by the dictionary it points to, read down to a given depth. It links the store
  to the dictionaries as values (\<open>PDict\<close>) that the functions above work on.
\<close>

function load_items :: "nat \<Rightarrow> hdict list \<Rightarrow> hdict \<Rightarrow> (string \<times> pyval) list option" where
  "load_items depth cells [] = Some []"
| "load_items depth cells ((k, v) # rest) =
     (case (case v of
              VRef r \<Rightarrow>
                (if r < length cells
                 then (case depth of
                         0 \<Rightarrow> None
                       | Suc depth' \<Rightarrow> map_option PDict (load_items depth' cells (cells ! r)))
                 else None)
            | _ \<Rightarrow> Some (scalar_of v)) of
        None \<Rightarrow> None
      | Some pv \<Rightarrow> map_option ((#) (k, pv)) (load_items depth cells rest))"
  by pat_completeness auto
termination
  by (relation "measures [\<lambda>(depth, cells, d). depth, \<lambda>(depth, cells, d). length d]") auto

definition scalar_item :: "string \<times> hval \<Rightarrow> string \<times> pyval" where
  "scalar_item kv = (fst kv, scalar_of (snd kv))"

fun is_ref :: "hval \<Rightarrow> bool" where
  "is_ref (VRef a) = True"
| "is_ref v = False"

section \<open>Properties of the format validator and of field-type inference\<close>

lemma newline_not_decimal: "\<not> is_decimal newline"
  by (simp add: is_decimal_def newline_def)

lemma re_match_char:
  "re_match (DigitRun m n) v =
     (full_match (DigitRun m n) v \<or> (\<exists>u. v = u @ [newline] \<and> full_match (DigitRun m n) u))"
proof
  assume "re_match (DigitRun m n) v"
  then obtain k where k: "m \<le> k" "k \<le> n" "k \<le> length v" "list_all is_decimal (take k v)"
      "drop k v = [] \<or> drop k v = [newline]"
    by (auto simp: list_ex_iff)
  from k(5) show "full_match (DigitRun m n) v \<or> (\<exists>u. v = u @ [newline] \<and> full_match (DigitRun m n) u)"
  proof
    assume "drop k v = []"
    with k have "length v = k" "take k v = v" by auto
    with k show ?thesis by simp
  next
    assume d: "drop k v = [newline]"
    have "v = take k v @ [newline]" using d append_take_drop_id[of k v] by simp
    moreover have "length (take k v) = k" using k by simp
    ultimately show ?thesis using k by auto
  qed
next
  assume "full_match (DigitRun m n) v \<or> (\<exists>u. v = u @ [newline] \<and> full_match (DigitRun m n) u)"
  then show "re_match (DigitRun m n) v"
  proof
    assume "full_match (DigitRun m n) v"
    then show ?thesis by (auto simp: list_ex_iff intro!: bexI[of _ "length v"])
  next
    assume "\<exists>u. v = u @ [newline] \<and> full_match (DigitRun m n) u"
    then obtain u where "v = u @ [newline]" "full_match (DigitRun m n) u" by blast
    then show ?thesis by (auto simp: list_ex_iff intro!: bexI[of _ "length u"])
  qed
qed

lemma validate_format_char:
  "validate_format field v =
     (v = [] \<or> (case field_patterns field of None \<Rightarrow> True
        | Some p \<Rightarrow> full_match p v \<or> (\<exists>u. v = u @ [newline] \<and> full_match p u)))"
  by (cases "field_patterns field"; cases "the (field_patterns field)")
     (auto simp: validate_format_def re_match_char simp del: re_match.simps full_match.simps)

text \<open>
  C1 (defect of the code). The claim: for a field with a registered pattern and a
  non-empty value, \<open>validate_format\<close> is true if and only if the whole value matches
  the pattern. The value made of the nine digits 123456789 followed by a newline is ten
  characters long and is not a run of nine digits, yet \<open>validate_format\<close> accepts it
  for \<open>idNumber\<close>: \<open>re.match\<close> with \<open>$\<close> also succeeds just before a final newline.
\<close>

theorem validate_format_trailing_newline:
  "field_patterns ''idNumber'' = Some (DigitRun 9 9)
   \<and> validate_format ''idNumber'' (''123456789'' @ [newline]) = True
   \<and> \<not> full_match (DigitRun 9 9) (''123456789'' @ [newline])"
  by (simp add: validate_format_def field_patterns_def is_decimal_def newline_def)



section \<open>Properties of the date validator\<close>

lemma filter_decimal_dropWhile:
  "filter is_decimal (dropWhile is_int_space s) = filter is_decimal s"
  by (induction s) (auto simp: is_decimal_def is_int_space_def Let_def)

lemma filter_decimal_int_strip: "filter is_decimal (int_strip s) = filter is_decimal s"
  by (simp add: int_strip_def rev_filter [symmetric] filter_decimal_dropWhile)

lemma py_int_digit_limit:
  assumes "int_max_str_digits < length (filter is_decimal s)"
  shows "py_int s = Inl ValueError"
proof -
  define t where "t = int_strip s"
  define body where "body = (if t \<noteq> [] \<and> (hd t = CHR ''-'' \<or> hd t = CHR ''+'') then tl t else t)"
  have "filter is_decimal body = filter is_decimal t"
    unfolding body_def by (cases t) (auto simp: is_decimal_def)
  then have l: "int_max_str_digits < length (filter is_decimal body)"
    using assms by (simp add: t_def filter_decimal_int_strip)
  have e: "py_int s =
     (case body of
           [] \<Rightarrow> Inl ValueError
         | c # cs \<Rightarrow>
             if is_decimal c
             then (case int_digits (digit_val c) cs of
                     None \<Rightarrow> Inl ValueError
                   | Some n \<Rightarrow>
                       if int_max_str_digits < length (filter is_decimal body)
                       then Inl ValueError
                       else Inr (if t \<noteq> [] \<and> hd t = CHR ''-'' then - n else n))
             else Inl ValueError)"
    unfolding py_int_def Let_def body_def t_def ..
  show ?thesis
  proof (cases body)
    case Nil
    then show ?thesis using e by simp
  next
    case (Cons c cs)
    have l': "int_max_str_digits < length (filter is_decimal (c # cs))"
      using l Cons by simp
    show ?thesis
      unfolding e Cons using l'
      by (cases "int_digits (digit_val c) cs") (simp_all del: filter.simps)
  qed
qed

lemma py_int_separator: "py_int [CHR 0x1C, CHR ''5''] = Inl ValueError"
  by code_simp

lemma py_int_spaces: "py_int [CHR 0xA0, CHR ''5'', CHR 0x85, CHR '' ''] = Inr 5"
  by code_simp

lemma datetime_calendar: "(\<exists>dt. datetime y m d = Inr dt) = calendar_date y m d"
  by (auto simp: datetime_def calendar_date_def fits_c_int_def days_in_month_def split: if_splits)

lemma validate_date_returns: "\<exists>ok r. validate_date dd = Inr (ok, r)"
  by (cases "validate_date_try dd") (auto simp: validate_date_def)

lemma validate_date_incomplete:
  assumes "dd ''day'' = None \<or> dd ''day'' = Some [] \<or> dd ''month'' = None \<or> dd ''month'' = Some []
            \<or> dd ''year'' = None \<or> dd ''year'' = Some []"
  shows "validate_date dd = Inr (True, NoReason)"
  using assms by (auto simp: validate_date_def validate_date_try_def truthy_str_def)

lemma validate_date_complete:
  assumes "dd ''day'' = Some ds" "dd ''month'' = Some ms" "dd ''year'' = Some ys"
    and "ds \<noteq> []" "ms \<noteq> []" "ys \<noteq> []"
  shows "if \<exists>y m d. py_int ys = Inr y \<and> py_int ms = Inr m \<and> py_int ds = Inr d \<and> calendar_date y m d
         then validate_date dd = Inr (True, NoReason)
         else \<exists>r. r \<noteq> NoReason \<and> validate_date dd = Inr (False, r)"
proof -
  let ?c = "exn_bind (py_int ys) (\<lambda>y. exn_bind (py_int ms) (\<lambda>m. exn_bind (py_int ds) (\<lambda>d. datetime y m d)))"
  have t: "validate_date_try dd =
      (case ?c of Inr date_obj \<Rightarrow> Inr (True, NoReason)
        | Inl e \<Rightarrow> (if e = ValueError then Inr (False, InvalidDateFormat e) else Inl e))"
    using assms by (simp add: validate_date_try_def truthy_str_def getitem_def exn_bind_def)
  have ok: "(\<exists>dt. ?c = Inr dt) =
      (\<exists>y m d. py_int ys = Inr y \<and> py_int ms = Inr m \<and> py_int ds = Inr d \<and> calendar_date y m d)"
    by (cases "py_int ys"; cases "py_int ms"; cases "py_int ds")
       (simp_all add: exn_bind_def datetime_calendar del: split_paired_Ex)
  show ?thesis
  proof (cases ?c)
    case (Inl e)
    have np: "\<not> (\<exists>y m d. py_int ys = Inr y \<and> py_int ms = Inr m \<and> py_int ds = Inr d
        \<and> calendar_date y m d)"
      using ok unfolding Inl by (simp del: split_paired_Ex)
    have r: "\<exists>r. r \<noteq> NoReason \<and> validate_date dd = Inr (False, r)"
      using Inl t by (auto simp: validate_date_def)
    show ?thesis unfolding if_not_P [OF np] by (rule r)
  next
    case (Inr dt)
    have p: "\<exists>y m d. py_int ys = Inr y \<and> py_int ms = Inr m \<and> py_int ds = Inr d
        \<and> calendar_date y m d"
      using ok unfolding Inr by (simp del: split_paired_Ex)
    have r: "validate_date dd = Inr (True, NoReason)"
      using Inr t by (simp add: validate_date_def)
    show ?thesis unfolding if_P [OF p] by (rule r)
  qed
qed

text \<open>
  C5. For every date dictionary with string components, \<open>validate_date\<close> returns a
  pair and never an exception; the pair is (true, empty message) whenever one of
  \<open>day\<close>, \<open>month\<close>, \<open>year\<close> is missing or empty; when the three are present and
  non-empty it is (true, empty message) exactly when the three components parse as
  integers (as \<open>int\<close> parses them) that form a calendar date, and (false, a non-empty
  reason) otherwise. Day 31, month 02, year 2020 gives (false, reason), and so do a day
  with a leading separator character U+001C and a day of more than 4300 digits, which
  \<open>int\<close> rejects.
\<close>

theorem validate_date_correct:
  "(\<exists>ok r. validate_date dd = Inr (ok, r))
   \<and> (dd ''day'' = None \<or> dd ''day'' = Some [] \<or> dd ''month'' = None \<or> dd ''month'' = Some []
        \<or> dd ''year'' = None \<or> dd ''year'' = Some []
      \<longrightarrow> validate_date dd = Inr (True, NoReason))
   \<and> (dd ''day'' = Some ds \<and> dd ''month'' = Some ms \<and> dd ''year'' = Some ys
        \<and> ds \<noteq> [] \<and> ms \<noteq> [] \<and> ys \<noteq> []
      \<longrightarrow> (if \<exists>y m d. py_int ys = Inr y \<and> py_int ms = Inr m \<and> py_int ds = Inr d
                     \<and> calendar_date y m d
           then validate_date dd = Inr (True, NoReason)
           else \<exists>r. r \<noteq> NoReason \<and> validate_date dd = Inr (False, r)))
   \<and> validate_date [''day'' \<mapsto> ''31'', ''month'' \<mapsto> ''02'', ''year'' \<mapsto> ''2020'']
       = Inr (False, InvalidDateFormat ValueError)
   \<and> validate_date [''day'' \<mapsto> [CHR 0x1C, CHR ''5''], ''month'' \<mapsto> ''02'',
                      ''year'' \<mapsto> ''2020'']
       = Inr (False, InvalidDateFormat ValueError)
   \<and> validate_date [''day'' \<mapsto> replicate 4301 CHR ''0'' @ ''1'', ''month'' \<mapsto> ''02'',
                      ''year'' \<mapsto> ''2020'']
       = Inr (False, InvalidDateFormat ValueError)"
proof -
  have ex: "validate_date [''day'' \<mapsto> ''31'', ''month'' \<mapsto> ''02'', ''year'' \<mapsto> ''2020'']
       = Inr (False, InvalidDateFormat ValueError)"
    by code_simp
  have ex2: "validate_date [''day'' \<mapsto> [CHR 0x1C, CHR ''5''], ''month'' \<mapsto> ''02'',
                            ''year'' \<mapsto> ''2020'']
       = Inr (False, InvalidDateFormat ValueError)"
    by code_simp
  have "int_max_str_digits < length (filter is_decimal (replicate 4301 CHR ''0'' @ ''1''))"
    by (simp add: int_max_str_digits_def is_decimal_def)
  then have "py_int (replicate 4301 CHR ''0'' @ ''1'') = Inl ValueError"
    by (rule py_int_digit_limit)
  moreover have "py_int ''2020'' = Inr 2020" "py_int ''02'' = Inr 2" by code_simp+
  ultimately have ex3:
    "validate_date [''day'' \<mapsto> replicate 4301 CHR ''0'' @ ''1'', ''month'' \<mapsto> ''02'',
                    ''year'' \<mapsto> ''2020'']
       = Inr (False, InvalidDateFormat ValueError)"
    by (simp add: validate_date_def validate_date_try_def truthy_str_def getitem_def exn_bind_def)
  show ?thesis
    using validate_date_returns [of dd] validate_date_incomplete [of dd]
      validate_date_complete [of dd ds ms ys] ex ex2 ex3
    by blast
qed

theorem validate_date_correct_witness:
  "py_int ''2020'' = Inr 2020 \<and> py_int ''02'' = Inr 2 \<and> py_int ''29'' = Inr 29
   \<and> calendar_date 2020 2 29
   \<and> validate_date [''day'' \<mapsto> ''29'', ''month'' \<mapsto> ''02'', ''year'' \<mapsto> ''2020'']
       = Inr (True, NoReason)
   \<and> validate_date [''day'' \<mapsto> '''', ''month'' \<mapsto> ''02'', ''year'' \<mapsto> ''2020'']
       = Inr (True, NoReason)"
proof -
  have p: "py_int ''2020'' = Inr 2020" "py_int ''02'' = Inr 2" "py_int ''29'' = Inr 29"
    by code_simp+
  have c: "calendar_date 2020 2 29" by code_simp
  let ?dd = "[''day'' \<mapsto> ''29'', ''month'' \<mapsto> ''02'', ''year'' \<mapsto> ''2020'']"
  let ?de = "[''day'' \<mapsto> '''', ''month'' \<mapsto> ''02'', ''year'' \<mapsto> ''2020'']"
  have e: "\<exists>y m d. py_int ''2020'' = Inr y \<and> py_int ''02'' = Inr m \<and> py_int ''29'' = Inr d
      \<and> calendar_date y m d"
    using p c by blast
  have h: "?dd ''day'' = Some ''29'' \<and> ?dd ''month'' = Some ''02'' \<and> ?dd ''year'' = Some ''2020''
      \<and> ''29'' \<noteq> [] \<and> ''02'' \<noteq> [] \<and> ''2020'' \<noteq> []"
    by simp
  have "validate_date ?dd = Inr (True, NoReason)"
    using validate_date_correct [of ?dd "''29''" "''02''" "''2020''"] h e
    by presburger
  moreover have "validate_date ?de = Inr (True, NoReason)"
    using validate_date_correct [of ?de] by simp
  ultimately show ?thesis using p c by simp
qed

section \<open>Properties of the bounding-box extraction\<close>

lemma py_min_Min: "xs \<noteq> [] \<Longrightarrow> py_min xs = Inr (Min (set xs))"
  by (cases xs) (simp_all add: Min.set_eq_fold [symmetric])

lemma py_max_Max: "xs \<noteq> [] \<Longrightarrow> py_max xs = Inr (Max (set xs))"
  by (cases xs) (simp_all add: Max.set_eq_fold [symmetric])

lemma box_of_coordinates_spanning:
  "xs \<noteq> [] \<Longrightarrow> ys \<noteq> [] \<Longrightarrow> box_of_coordinates xs ys = Inr (spanning_box xs ys)"
  by (simp add: box_of_coordinates_def py_min_Min py_max_Max exn_bind_def spanning_box_def)

lemma map_exn_attr_x: "map_exn attr_x (map (\<lambda>(x, y). Point x y) cs) = Inr (map fst cs)"
  by (induction cs) (auto simp: exn_bind_def)

lemma map_exn_attr_y: "map_exn attr_y (map (\<lambda>(x, y). Point x y) cs) = Inr (map snd cs)"
  by (induction cs) (auto simp: exn_bind_def)

lemma map_exn_item0: "map_exn (item 0) (map (\<lambda>(x, y). Seq [x, y]) cs) = Inr (map fst cs)"
  by (induction cs) (auto simp: exn_bind_def)

lemma map_exn_item1: "map_exn (item 1) (map (\<lambda>(x, y). Seq [x, y]) cs) = Inr (map snd cs)"
  by (induction cs) (auto simp: exn_bind_def)

lemma evens_flat_list: "map_exn number_of (evens (flat_list cs)) = Inr (map fst cs)"
  by (induction cs) (auto simp: exn_bind_def)

lemma odds_flat_list: "map_exn number_of (odds (flat_list cs)) = Inr (map snd cs)"
  by (induction cs) (auto simp: exn_bind_def)

lemma length_flat_list: "length (flat_list cs) = 2 * length cs"
  by (induction cs) auto

lemma extract_bounding_box_returns: "\<exists>box. extract_bounding_box polygon = Inr box"
  by (cases "extract_bounding_box_try polygon") (simp_all add: extract_bounding_box_def)

lemma extract_points:
  assumes "cs \<noteq> []"
  shows "extract_bounding_box (Some (map (\<lambda>(x, y). Point x y) cs))
           = Inr (spanning_box (map fst cs) (map snd cs))"
proof -
  obtain x y cs' where cs: "cs = (x, y) # cs'" using assms by (cases cs) auto
  have "extract_bounding_box_try (Some (map (\<lambda>(x, y). Point x y) cs))
          = box_of_coordinates (map fst cs) (map snd cs)"
    using map_exn_attr_x [of cs] map_exn_attr_y [of cs]
    by (simp add: extract_bounding_box_try_def cs exn_bind_def)
  then show ?thesis
    using assms by (simp add: extract_bounding_box_def box_of_coordinates_spanning)
qed

lemma extract_pairs:
  assumes "cs \<noteq> []"
  shows "extract_bounding_box (Some (map (\<lambda>(x, y). Seq [x, y]) cs))
           = Inr (spanning_box (map fst cs) (map snd cs))"
proof -
  obtain x y cs' where cs: "cs = (x, y) # cs'" using assms by (cases cs) auto
  have "extract_bounding_box_try (Some (map (\<lambda>(x, y). Seq [x, y]) cs))
          = box_of_coordinates (map fst cs) (map snd cs)"
    using map_exn_item0 [of cs] map_exn_item1 [of cs]
    by (simp add: extract_bounding_box_try_def cs exn_bind_def)
  then show ?thesis
    using assms by (simp add: extract_bounding_box_def box_of_coordinates_spanning)
qed

lemma extract_flat:
  assumes "cs \<noteq> []"
  shows "extract_bounding_box (Some (flat_list cs))
           = Inr (spanning_box (map fst cs) (map snd cs))"
proof -
  obtain x y cs' where cs: "cs = (x, y) # cs'" using assms by (cases cs) auto
  have "extract_bounding_box_try (Some (flat_list cs))
          = box_of_coordinates (map fst cs) (map snd cs)"
    using evens_flat_list [of cs] odds_flat_list [of cs] length_flat_list [of cs']
    by (simp add: extract_bounding_box_try_def cs exn_bind_def)
  then show ?thesis
    using assms by (simp add: extract_bounding_box_def box_of_coordinates_spanning)
qed

lemma extract_odd:
  assumes "odd (length (Num r # ps))"
  shows "extract_bounding_box (Some (Num r # ps)) = Inr default_box"
  using assms by (simp add: extract_bounding_box_def extract_bounding_box_try_def even_iff_mod_2_eq_zero)

lemma extract_unrecognised:
  assumes "\<not> has_xy q" "\<not> is_number q" "\<not> is_pair q"
  shows "extract_bounding_box (Some (q # ps)) = Inr default_box"
  using assms by (simp add: extract_bounding_box_def extract_bounding_box_try_def)

text \<open>
  C8. The bounding-box extraction always returns a box, whatever the polygon: no
  exception leaves it. An absent or empty polygon, a list that starts with a number and
  has odd length, and a list whose first element has no recognised shape give the default
  box (0, 0, 100, 20). A non-empty list of points given as objects with \<open>x\<close> and \<open>y\<close>,
  as a flat list of alternating coordinates or as a list of two-element pairs gives the
  axis-aligned box from the minimum to the maximum coordinate.
\<close>

theorem extract_bounding_box_correct:
  "(\<exists>box. extract_bounding_box polygon = Inr box)
   \<and> default_box = \<lparr>bb_x = 0, bb_y = 0, bb_width = 100, bb_height = 20\<rparr>
   \<and> extract_bounding_box None = Inr default_box
   \<and> extract_bounding_box (Some []) = Inr default_box
   \<and> (odd (length (Num r # ps)) \<longrightarrow> extract_bounding_box (Some (Num r # ps)) = Inr default_box)
   \<and> (\<not> has_xy q \<and> \<not> is_number q \<and> \<not> is_pair q
        \<longrightarrow> extract_bounding_box (Some (q # ps)) = Inr default_box)
   \<and> (cs \<noteq> [] \<longrightarrow>
        extract_bounding_box (Some (map (\<lambda>(x, y). Point x y) cs))
          = Inr (spanning_box (map fst cs) (map snd cs))
        \<and> extract_bounding_box (Some (flat_list cs))
          = Inr (spanning_box (map fst cs) (map snd cs))
        \<and> extract_bounding_box (Some (map (\<lambda>(x, y). Seq [x, y]) cs))
          = Inr (spanning_box (map fst cs) (map snd cs)))"
proof -
  have d: "extract_bounding_box None = Inr default_box"
          "extract_bounding_box (Some []) = Inr default_box"
    by (simp_all add: extract_bounding_box_def extract_bounding_box_try_def)
  show ?thesis
    using extract_bounding_box_returns [of polygon] d extract_odd [of r ps]
      extract_unrecognised [of q ps] extract_points [of cs] extract_flat [of cs]
      extract_pairs [of cs]
    by (simp add: default_box_def)
qed

theorem extract_bounding_box_correct_witness:
  "odd (length (Num 1 # [Num 2, Num 3]))
   \<and> extract_bounding_box (Some [Num 1, Num 2, Num 3]) = Inr default_box
   \<and> \<not> has_xy Other \<and> \<not> is_number Other \<and> \<not> is_pair Other
   \<and> extract_bounding_box (Some [Other, Num 2, Num 3]) = Inr default_box
   \<and> [(1, 2), (4, 0)] \<noteq> ([] :: (real \<times> real) list)
   \<and> extract_bounding_box (Some [Point 1 2, Point 4 0])
       = Inr \<lparr>bb_x = 1, bb_y = 0, bb_width = 3, bb_height = 2\<rparr>
   \<and> extract_bounding_box (Some [Num 1, Num 2, Num 4, Num 0])
       = Inr \<lparr>bb_x = 1, bb_y = 0, bb_width = 3, bb_height = 2\<rparr>
   \<and> extract_bounding_box (Some [Seq [1, 2], Seq [4, 0]])
       = Inr \<lparr>bb_x = 1, bb_y = 0, bb_width = 3, bb_height = 2\<rparr>"
  using extract_bounding_box_correct
    [where r = 1 and ps = "[Num 2, Num 3]" and q = Other and cs = "[(1, 2), (4, 0)]"]
  by (simp add: spanning_box_def)

section \<open>Properties of the validation of OCR spans\<close>

lemma map_exn_Inr:
  "(\<And>x. x \<in> set xs \<Longrightarrow> f x = Inr (g x)) \<Longrightarrow> map_exn f xs = Inr (map g xs)"
  by (induction xs) (simp_all add: exn_bind_def)

lemma overlaps_with_spans: "\<exists>overlaps. overlaps_with bbox (map SpanElem ss) = Inr overlaps"
  by (induction ss) (auto simp: exn_bind_def)

lemma validate_spatial_coherence_spans:
  "\<exists>sc. validate_spatial_coherence bbox (map SpanElem ss) = Inr sc"
  using overlaps_with_spans [of bbox ss]
  by (auto simp: validate_spatial_coherence_def exn_bind_def Let_def)

lemma validate_extraction_upto_twenty:
  assumes len: "length (text_spans er) \<le> 20"
    and tab: "tables er = []"
    and strs: "\<And>s. s \<in> set (text_spans er) \<Longrightarrow> \<exists>t. text_of s = PStr t"
  shows "\<exists>r. validate_extraction er = Inr r
           \<and> global_confidence r
               = (mean_or_zero (map confidence_of (text_spans er))
                  + mean_or_zero (map spatial_score (validated_spans r))) / 2
           \<and> map confidence_valid (validated_spans r)
               = map (\<lambda>s. confidence_of s \<ge> 1 / 2) (text_spans er)"
proof -
  define sc where "sc s = projr (validate_spatial_coherence (box_or_empty (span_bounding_box s))
      (map SpanElem (text_spans er)))" for s :: span
  have sc: "validate_spatial_coherence (box_or_empty (span_bounding_box s))
      (map SpanElem (text_spans er)) = Inr (sc s)" for s
    using validate_spatial_coherence_spans
      [of "box_or_empty (span_bounding_box s)" "text_spans er"]
    by (auto simp: sc_def)
  have score: "score_span er s = Inr (confidence_of s, sc s)" if "s \<in> set (text_spans er)" for s
    using strs [OF that] sc [of s] by (auto simp: score_span_def tab exn_bind_def)
  have vspan: "validate_span er s = Inr \<lparr>vs_text = text_of s,
      confidence_valid = (confidence_of s \<ge> min_confidence_threshold), spatial_score = sc s\<rparr>" for s
    using sc [of s] by (simp add: validate_span_def exn_bind_def)
  have m1: "map_exn (score_span er) (take 20 (text_spans er))
      = Inr (map (\<lambda>s. (confidence_of s, sc s)) (text_spans er))"
    using len map_exn_Inr [of "text_spans er" "score_span er" "\<lambda>s. (confidence_of s, sc s)",
        OF score]
    by simp
  have m2: "map_exn (validate_span er) (text_spans er)
      = Inr (map (\<lambda>s. \<lparr>vs_text = text_of s,
          confidence_valid = (confidence_of s \<ge> min_confidence_threshold),
          spatial_score = sc s\<rparr>) (text_spans er))"
    by (rule map_exn_Inr) (rule vspan)
  show ?thesis
    by (simp add: validate_extraction_def m1 m2 exn_bind_def Let_def mean_or_zero_def
        np_mean_def comp_def min_confidence_threshold_def)
qed

lemma validate_extraction_table:
  "validate_extraction \<lparr>text_spans = [plain_span ''a'' 1], tables = [[]],
                         average_confidence = None\<rparr> = Inl AttributeError"
  by code_simp

text \<open>
  C3 (defect of the code). The claim: the global confidence is the average of the mean
  confidence over the text spans and the mean spatial coherence over the text spans. For
  twenty spans of confidence 1 followed by one span of confidence 0 (no bounding boxes,
  no tables) the function returns 21 validated spans and the global confidence 1, while
  the mean confidence over the 21 spans is 20/21 and the claimed value is 41/42: the loop
  that collects the scores runs over the first twenty spans only.
\<close>

theorem validate_extraction_first_twenty:
  "\<exists>r. validate_extraction \<lparr>text_spans = spans21, tables = [], average_confidence = None\<rparr>
         = Inr r
       \<and> length (validated_spans r) = 21
       \<and> global_confidence r = 1
       \<and> mean_or_zero (map confidence_of spans21) = 20 / 21
       \<and> (mean_or_zero (map confidence_of spans21)
            + mean_or_zero (map spatial_score (validated_spans r))) / 2 = 41 / 42"
proof -
  have "case validate_extraction \<lparr>text_spans = spans21, tables = [], average_confidence = None\<rparr>
        of Inl e \<Rightarrow> False
         | Inr r \<Rightarrow>
             length (validated_spans r) = 21
             \<and> global_confidence r = 1
             \<and> mean_or_zero (map confidence_of spans21) = 20 / 21
             \<and> (mean_or_zero (map confidence_of spans21)
                  + mean_or_zero (map spatial_score (validated_spans r))) / 2 = 41 / 42"
    by code_simp
  then show ?thesis
    by (cases "validate_extraction \<lparr>text_spans = spans21, tables = [], average_confidence = None\<rparr>")
       simp_all
qed

end
